theory Spec2Isabelle
  imports Main "HOL-Library.Word"
begin

unbundle bit_operations_syntax

section \<open>The Vulkan pipeline layer of the driver (drv3d_vulkan/pipeline)\<close>

text \<open>
  A shallow embedding of \<^verbatim>\<open>pipeline/main_pipelines.cpp\<close> and \<^verbatim>\<open>pipeline/manager.h\<close>.
  Unsigned C integers are words of their width, \<^verbatim>\<open>VkBool32\<close> values that the code only
  ever sets to \<^verbatim>\<open>VK_TRUE\<close> or \<^verbatim>\<open>VK_FALSE\<close> are booleans, a failed \<^verbatim>\<open>G_ASSERT\<close> is an
  error value, and the fatal exit of \<^verbatim>\<open>VULKAN_EXIT_ON_FAIL\<close> is an outcome of its own.
\<close>

subsection \<open>Native types and constants\<close>

type_synonym VkSampleCountFlagBits = "32 word"
type_synonym VkSampleCountFlags = "32 word"
type_synonym VulkanPipelineHandle = "64 word"
type_synonym VkResult = int

text \<open>The values of the Vulkan headers (\<^verbatim>\<open>vulkan_core.h\<close>).\<close>

definition VK_SAMPLE_COUNT_1_BIT :: VkSampleCountFlagBits where
  "VK_SAMPLE_COUNT_1_BIT = 1"

definition VK_SAMPLE_COUNT_2_BIT :: VkSampleCountFlagBits where
  "VK_SAMPLE_COUNT_2_BIT = 2"

definition VK_SAMPLE_COUNT_4_BIT :: VkSampleCountFlagBits where
  "VK_SAMPLE_COUNT_4_BIT = 4"

definition VK_SAMPLE_COUNT_8_BIT :: VkSampleCountFlagBits where
  "VK_SAMPLE_COUNT_8_BIT = 8"

definition VK_SAMPLE_COUNT_16_BIT :: VkSampleCountFlagBits where
  "VK_SAMPLE_COUNT_16_BIT = 16"

definition VK_SAMPLE_COUNT_32_BIT :: VkSampleCountFlagBits where
  "VK_SAMPLE_COUNT_32_BIT = 32"

definition VK_SAMPLE_COUNT_64_BIT :: VkSampleCountFlagBits where
  "VK_SAMPLE_COUNT_64_BIT = 64"

text \<open>
  A \<^verbatim>\<open>G_ASSERT\<close>/\<^verbatim>\<open>G_ASSERTF\<close> whose condition is false: one constructor for each
  assertion of the two files. The last two are no assertions of the source: an index
  past the end of a \<^verbatim>\<open>Tab\<close>, and a null slot dereferenced by \<^verbatim>\<open>get\<close>.
\<close>

datatype assert_error =
    SampleCountNotSupported
  | ForcedMultisamplingWithAttachments
  | AlphaToCoverageWithoutMSAA
  | ProgramIdCheckFailed
  | SlotNotEmpty
  | TakenOutNull
  | IndexOutOfBounds
  | NullPipelineDereferenced

subsection \<open>checkSampleCount\<close>

text \<open>
  The \<^verbatim>\<open>switch\<close> of \<^verbatim>\<open>checkSampleCount\<close>: the flag bit of a sample count, and the count
  itself cast to the flag type in the \<^verbatim>\<open>default\<close> branch.
\<close>

definition sampleCountSwitch :: "32 word \<Rightarrow> VkSampleCountFlagBits" where
  "sampleCountSwitch count =
     (if count = 2 then VK_SAMPLE_COUNT_2_BIT
      else if count = 4 then VK_SAMPLE_COUNT_4_BIT
      else if count = 8 then VK_SAMPLE_COUNT_8_BIT
      else if count = 16 then VK_SAMPLE_COUNT_16_BIT
      else if count = 32 then VK_SAMPLE_COUNT_32_BIT
      else if count = 64 then VK_SAMPLE_COUNT_64_BIT
      else count)"

text \<open>
  \<^verbatim>\<open>checkSampleCount(count, colorMask, hasDepth)\<close>. The first argument of the model is
  \<^verbatim>\<open>properties.limits.framebufferNoAttachmentsSampleCounts\<close> of the device, which the
  source reads through \<^verbatim>\<open>get_device()\<close>. The two assertions are checked in the source's
  order.
\<close>

definition checkSampleCount ::
  "VkSampleCountFlags \<Rightarrow> 32 word \<Rightarrow> 8 word \<Rightarrow> 8 word \<Rightarrow> assert_error + VkSampleCountFlagBits" where
  "checkSampleCount framebufferNoAttachmentsSampleCounts count colorMask hasDepth =
     (if count \<le> 1 then Inr VK_SAMPLE_COUNT_1_BIT
      else
        let ret = sampleCountSwitch count in
        if framebufferNoAttachmentsSampleCounts AND ret = 0 then Inl SampleCountNotSupported
        else if \<not> (hasDepth = 0 \<and> colorMask = 0) then Inl ForcedMultisamplingWithAttachments
        else Inr ret)"

subsection \<open>Results, handles and outcomes\<close>

definition VK_SUCCESS :: VkResult where
  "VK_SUCCESS = 0"

definition VK_ERROR_UNKNOWN :: VkResult where
  "VK_ERROR_UNKNOWN = - 13"

definition VK_NULL_HANDLE :: VulkanPipelineHandle where
  "VK_NULL_HANDLE = 0"

definition is_null :: "VulkanPipelineHandle \<Rightarrow> bool" where
  "is_null h = (h = VK_NULL_HANDLE)"

text \<open>
  Modelled from the spec: the macro \<^verbatim>\<open>VULKAN_OK\<close> is defined outside the two files. The
  spec speaks of a native creation that "returns an error"; Vulkan's error codes are the
  negative values of \<^verbatim>\<open>VkResult\<close>, every other value is a success.
\<close>

definition VULKAN_OK :: "VkResult \<Rightarrow> bool" where
  "VULKAN_OK r = (0 \<le> r)"

text \<open>
  Modelled from the spec: the macro \<^verbatim>\<open>VULKAN_FAIL\<close> is defined outside the two files;
  it is the opposite of \<^verbatim>\<open>VULKAN_OK\<close>.
\<close>

definition VULKAN_FAIL :: "VkResult \<Rightarrow> bool" where
  "VULKAN_FAIL r = (r < 0)"

text \<open>
  What a call does: it returns a value, it leaves through the fatal exit of
  \<^verbatim>\<open>VULKAN_EXIT_ON_FAIL\<close>, it blocks for ever, or it reads through a pointer that
  refers to no object (undefined in C++).
\<close>

datatype 'a outcome = Returns 'a | FatalExit | NeverReturns | InvalidPointer

text \<open>
  Modelled from the spec: the macro \<^verbatim>\<open>VULKAN_EXIT_ON_FAIL\<close> is defined outside the two
  files. In the spec, "if native creation fails, the process is considered fatal
  (unrecoverable)"; otherwise the code after the macro runs.
\<close>

definition VULKAN_EXIT_ON_FAIL :: "VkResult \<Rightarrow> 'a outcome \<Rightarrow> 'a outcome" where
  "VULKAN_EXIT_ON_FAIL r continue = (if VULKAN_FAIL r then FatalExit else continue)"

type_synonym addr = nat

text \<open>
  Modelled from the spec: the class \<^verbatim>\<open>BasePipeline\<close> (\<^verbatim>\<open>pipeline/base_pipeline.h\<close>) is
  outside the two files. The spec gives every pipeline "a reference to its Layout" and "a
  native pipeline object handle (initially null/compiling)".
\<close>

record BasePipeline =
  layout :: addr
  handle :: VulkanPipelineHandle

text \<open>
  Modelled from the spec: \<^verbatim>\<open>BasePipeline::getHandle\<close> is outside the two files; it reads
  the pipeline's native handle.
\<close>

definition getHandle :: "'a BasePipeline_scheme \<Rightarrow> VulkanPipelineHandle" where
  "getHandle p = handle p"

text \<open>
  Modelled from the spec: \<^verbatim>\<open>BasePipeline::getCompiledHandle\<close> is outside the two files.
  The spec knows one native handle per pipeline, which is the compiled handle once
  "the native handle replaces the scratch"; the getter reads it.
\<close>

definition getCompiledHandle :: "'a BasePipeline_scheme \<Rightarrow> VulkanPipelineHandle" where
  "getCompiledHandle p = handle p"

text \<open>
  Modelled from the spec: \<^verbatim>\<open>BasePipeline::setHandle\<close>, which the source calls at the end
  of a compilation whose scratch is not heap-allocated, is outside the two files; it
  stores the native handle.
\<close>

definition setHandle :: "VulkanPipelineHandle \<Rightarrow> 'a BasePipeline_scheme \<Rightarrow> 'a BasePipeline_scheme" where
  "setHandle h p = p\<lparr>handle := h\<rparr>"

text \<open>
  Modelled from the spec: \<^verbatim>\<open>BasePipeline::setCompiledHandle\<close>, which the source calls at
  the end of a compilation whose scratch is heap-allocated, is outside the two files; it
  stores the native handle as well ("on completion the native handle replaces the
  scratch").
\<close>

definition setCompiledHandle ::
  "VulkanPipelineHandle \<Rightarrow> 'a BasePipeline_scheme \<Rightarrow> 'a BasePipeline_scheme" where
  "setCompiledHandle h p = p\<lparr>handle := h\<rparr>"

text \<open>
  Modelled from the spec: \<^verbatim>\<open>BasePipeline::checkCompiled\<close> is outside the two files. In
  the spec a pipeline is Compiled when its "native handle [is] valid", and pending while
  the handle is null.
\<close>

definition checkCompiled :: "'a BasePipeline_scheme \<Rightarrow> bool" where
  "checkCompiled p = (\<not> is_null (handle p))"

text \<open>
  The build configuration and the timing of one compilation, as far as the logging of
  \<^verbatim>\<open>compile()\<close> reads them: the macros \<^verbatim>\<open>VULKAN_LOG_PIPELINE_ACTIVITY\<close> and
  \<^verbatim>\<open>PIPELINE_COMPILATION_LONG_THRESHOLD\<close>, and the time the \<^verbatim>\<open>ScopedTimer\<close> measured.
  The messages that exist only under \<^verbatim>\<open>VULKAN_LOAD_SHADER_EXTENDED_DEBUG_DATA\<close> are
  left out.
\<close>

record CompileTiming =
  VULKAN_LOG_PIPELINE_ACTIVITY :: nat
  PIPELINE_COMPILATION_LONG_THRESHOLD :: int
  compilationTime :: int

datatype log_message =
    Debug_not_compiled_but_result_was_ok
  | Debug_compiled_in
  | Logerr_not_compiled_but_result_was_ok

text \<open>
  The condition in front of the "compiled in" block: the \<^verbatim>\<open>if\<close> is compiled in only
  when \<^verbatim>\<open>VULKAN_LOG_PIPELINE_ACTIVITY < 1\<close>, otherwise the block always runs.
\<close>

definition logsLongCompile :: "CompileTiming \<Rightarrow> bool \<Rightarrow> bool" where
  "logsLongCompile t scratchAllocated =
     (if VULKAN_LOG_PIPELINE_ACTIVITY t < 1
      then compilationTime t > PIPELINE_COMPILATION_LONG_THRESHOLD t \<and> \<not> scratchAllocated
      else True)"

subsection \<open>ComputePipeline\<close>

record ComputePipelineCompileScratchData =
  allocated :: bool
  vkModule :: "64 word"
  vkLayout :: "64 word"
  vkCache :: "64 word"
  progIdx :: "32 word"

record ComputePipeline = BasePipeline +
  compileScratch :: "ComputePipelineCompileScratchData option"

text \<open>
  The native \<^verbatim>\<open>vkCreateComputePipelines\<close>: from the scratch data that fill the
  create-info to the \<^verbatim>\<open>VkResult\<close> and the handle it writes.
\<close>

type_synonym vkCreateComputePipelines =
  "ComputePipelineCompileScratchData \<Rightarrow> VkResult \<times> VulkanPipelineHandle"

text \<open>
  \<^verbatim>\<open>ComputePipeline::compile()\<close>. A success that left the handle null becomes
  \<^verbatim>\<open>VK_ERROR_UNKNOWN\<close> before \<^verbatim>\<open>VULKAN_EXIT_ON_FAIL\<close>. The result is the pipeline and
  the messages logged. With no scratch the source reads through a null pointer.
\<close>

definition ComputePipeline_compile ::
  "vkCreateComputePipelines \<Rightarrow> CompileTiming \<Rightarrow> ComputePipeline
     \<Rightarrow> (ComputePipeline \<times> log_message list) outcome" where
  "ComputePipeline_compile native t this =
     (case compileScratch this of
        None \<Rightarrow> InvalidPointer
      | Some scratch \<Rightarrow>
          let (compileResult0, retHandle) = native scratch;
              notCompiledButOk = (is_null retHandle \<and> VULKAN_OK compileResult0);
              compileResult = (if notCompiledButOk then VK_ERROR_UNKNOWN else compileResult0);
              log1 = (if notCompiledButOk then [Debug_not_compiled_but_result_was_ok] else [])
          in VULKAN_EXIT_ON_FAIL compileResult
               (let log2 = (if logsLongCompile t (allocated scratch) then [Debug_compiled_in] else []);
                    this' = (if allocated scratch then setCompiledHandle retHandle this
                             else setHandle retHandle this)
                in Returns (this'\<lparr>compileScratch := None\<rparr>, log1 @ log2)))"

text \<open>
  The backend as the compute pipelines see it: the pipeline objects by address, and the
  pipelines that wait in the background compiler's queue. The steps of the compiler's
  workers and of the recording thread are interleaved, each step one whole operation.
\<close>

record Backend =
  pipes :: "addr \<Rightarrow> ComputePipeline option"
  compileQueue :: "addr list"

text \<open>
  Modelled from the spec: \<^verbatim>\<open>pipelineCompiler.queue\<close> (the Background Compiler Queue) is
  outside the two files. In the spec \<^verbatim>\<open>enqueue(pipeline)\<close> "accepts ownership of the
  compile request without blocking the caller".
\<close>

definition PipelineCompiler_queue :: "addr \<Rightarrow> Backend \<Rightarrow> Backend" where
  "PipelineCompiler_queue p s = s\<lparr>compileQueue := compileQueue s @ [p]\<rparr>"

text \<open>
  Modelled from the spec: the worker of the Background Compiler Queue is outside the two
  files. In the spec the queue "compiles them off the critical submission path": a step
  of a worker runs \<^verbatim>\<open>compile()\<close> on a queued pipeline and takes it off the queue.
\<close>

definition PipelineCompiler_compileQueued ::
  "vkCreateComputePipelines \<Rightarrow> CompileTiming \<Rightarrow> addr \<Rightarrow> Backend \<Rightarrow> Backend outcome" where
  "PipelineCompiler_compileQueued native t p s =
     (case pipes s p of
        None \<Rightarrow> InvalidPointer
      | Some pipe \<Rightarrow>
          (case ComputePipeline_compile native t pipe of
             Returns (pipe', log) \<Rightarrow>
               Returns (s\<lparr>pipes := (pipes s)(p := Some pipe'),
                          compileQueue := removeAll p (compileQueue s)\<rparr>)
           | FatalExit \<Rightarrow> FatalExit
           | NeverReturns \<Rightarrow> NeverReturns
           | InvalidPointer \<Rightarrow> InvalidPointer))"

text \<open>
  Modelled from the spec: \<^verbatim>\<open>pipelineCompiler.waitFor\<close> is outside the two files. In the
  spec \<^verbatim>\<open>waitFor(pipeline)\<close> "blocks the calling execution context until that specific
  pipeline's compilation has completed (and only that one - it must not require draining
  the entire queue)": it returns at once for a compiled pipeline, it returns after the
  compilation of a queued one, and the wait for a pipeline that is neither never ends.
\<close>

definition PipelineCompiler_waitFor ::
  "vkCreateComputePipelines \<Rightarrow> CompileTiming \<Rightarrow> addr \<Rightarrow> Backend \<Rightarrow> Backend outcome" where
  "PipelineCompiler_waitFor native t p s =
     (case pipes s p of
        None \<Rightarrow> InvalidPointer
      | Some pipe \<Rightarrow>
          if checkCompiled pipe then Returns s
          else if p \<in> set (compileQueue s) then PipelineCompiler_compileQueued native t p s
          else NeverReturns)"

text \<open>
  The constructor, at the address \<^verbatim>\<open>this\<close> of the new object. \<^verbatim>\<open>vk_module\<close> is what
  \<^verbatim>\<open>makeVkModule(info.sci)\<close> returned and \<^verbatim>\<open>layoutHandle\<close> is \<^verbatim>\<open>layout->handle\<close>. The
  scratch of the synchronous path lives on the constructor's stack.
\<close>

definition ComputePipeline_ctor ::
  "vkCreateComputePipelines \<Rightarrow> CompileTiming \<Rightarrow> addr \<Rightarrow> 32 word \<Rightarrow> 64 word \<Rightarrow> addr \<Rightarrow> 64 word
     \<Rightarrow> 64 word \<Rightarrow> bool \<Rightarrow> Backend \<Rightarrow> Backend outcome" where
  "ComputePipeline_ctor native t this prog cache l layoutHandle vk_module allowAsyncCompile s =
     (let scratch = \<lparr>allocated = allowAsyncCompile, vkModule = vk_module, vkLayout = layoutHandle,
                      vkCache = cache, progIdx = prog\<rparr>;
          obj = \<lparr>layout = l, handle = VK_NULL_HANDLE, compileScratch = Some scratch\<rparr>
      in if allowAsyncCompile
         then Returns (PipelineCompiler_queue this (s\<lparr>pipes := (pipes s)(this := Some obj)\<rparr>))
         else (case ComputePipeline_compile native t obj of
                 Returns (obj', log) \<Rightarrow> Returns (s\<lparr>pipes := (pipes s)(this := Some obj')\<rparr>)
               | FatalExit \<Rightarrow> FatalExit
               | NeverReturns \<Rightarrow> NeverReturns
               | InvalidPointer \<Rightarrow> InvalidPointer))"

text \<open>The calls \<^verbatim>\<open>bind\<close> makes, in their order.\<close>

datatype bind_call =
    WaitFor addr
  | VkCmdBindPipeline_COMPUTE VulkanPipelineHandle

text \<open>\<^verbatim>\<open>ComputePipeline::bind(vk_dev, cmd_buffer)\<close> on the object at \<^verbatim>\<open>this\<close>.\<close>

definition ComputePipeline_bind ::
  "vkCreateComputePipelines \<Rightarrow> CompileTiming \<Rightarrow> addr \<Rightarrow> Backend
     \<Rightarrow> (Backend \<times> bind_call list) outcome" where
  "ComputePipeline_bind native t this s =
     (case pipes s this of
        None \<Rightarrow> InvalidPointer
      | Some pipe \<Rightarrow>
          (case (if \<not> checkCompiled pipe
                 then (case PipelineCompiler_waitFor native t this s of
                         Returns s' \<Rightarrow> Returns (s', [WaitFor this])
                       | FatalExit \<Rightarrow> FatalExit
                       | NeverReturns \<Rightarrow> NeverReturns
                       | InvalidPointer \<Rightarrow> InvalidPointer)
                 else Returns (s, [])) of
             Returns (s', calls) \<Rightarrow>
               (case pipes s' this of
                  None \<Rightarrow> InvalidPointer
                | Some pipe' \<Rightarrow> Returns (s', calls @ [VkCmdBindPipeline_COMPUTE (getHandle pipe')]))
           | FatalExit \<Rightarrow> FatalExit
           | NeverReturns \<Rightarrow> NeverReturns
           | InvalidPointer \<Rightarrow> InvalidPointer))"

text \<open>
  \<^verbatim>\<open>ComputePipeline::onDelayedCleanupFinish<CLEANUP_DESTROY>()\<close>: waits like \<^verbatim>\<open>bind\<close>,
  then shuts the pipeline down and deletes the object.
\<close>

definition ComputePipeline_onDelayedCleanupFinish ::
  "vkCreateComputePipelines \<Rightarrow> CompileTiming \<Rightarrow> addr \<Rightarrow> Backend \<Rightarrow> Backend outcome" where
  "ComputePipeline_onDelayedCleanupFinish native t this s =
     (case pipes s this of
        None \<Rightarrow> InvalidPointer
      | Some pipe \<Rightarrow>
          (case (if \<not> checkCompiled pipe then PipelineCompiler_waitFor native t this s
                 else Returns s) of
             Returns s' \<Rightarrow> Returns (s'\<lparr>pipes := (pipes s')(this := None)\<rparr>)
           | FatalExit \<Rightarrow> FatalExit
           | NeverReturns \<Rightarrow> NeverReturns
           | InvalidPointer \<Rightarrow> InvalidPointer))"

text \<open>
  The states of the backend: from no pipeline at all, through constructions (at an
  address that holds no object), steps of a background worker on a queued pipeline,
  binds and destructions, each with a native driver and a timing of its own.
\<close>

inductive reachable :: "Backend \<Rightarrow> bool" where
  initial: "reachable \<lparr>pipes = (\<lambda>a. None), compileQueue = []\<rparr>"
| constructed:
    "reachable s \<Longrightarrow> pipes s this = None
      \<Longrightarrow> ComputePipeline_ctor native t this prog cache l layoutHandle vk_module async s = Returns s'
      \<Longrightarrow> reachable s'"
| worker:
    "reachable s \<Longrightarrow> p \<in> set (compileQueue s)
      \<Longrightarrow> PipelineCompiler_compileQueued native t p s = Returns s'
      \<Longrightarrow> reachable s'"
| bound:
    "reachable s \<Longrightarrow> ComputePipeline_bind native t this s = Returns (s', calls)
      \<Longrightarrow> reachable s'"
| destroyed:
    "reachable s \<Longrightarrow> ComputePipeline_onDelayedCleanupFinish native t this s = Returns s'
      \<Longrightarrow> reachable s'"

text \<open>
  The invariant of the reachable states: a pipeline that is not compiled is in the
  compiler's queue and still has its scratch.
\<close>

definition pendingAreQueued :: "Backend \<Rightarrow> bool" where
  "pendingAreQueued s =
     (\<forall>p pipe. pipes s p = Some pipe \<longrightarrow>
        checkCompiled pipe \<or> (p \<in> set (compileQueue s) \<and> compileScratch pipe \<noteq> None))"

subsection \<open>GraphicsPipeline: the data the constructor reads and writes\<close>

text \<open>
  The static render state (\<^verbatim>\<open>info.rsBackend.getStatic(...)\<close>), with the fields the
  constructor reads for the multisample, depth/stencil and colour-blend states. Its field
  names carry the prefix \<^verbatim>\<open>rs_\<close>, since the create-info structures use the same names.
\<close>

record BlendParams =
  rs_blendEnable :: bool
  rs_blendSrcFactor :: "32 word"
  rs_blendDstFactor :: "32 word"
  rs_blendOp :: "32 word"
  rs_blendSeparateAlphaEnable :: bool
  rs_blendSrcAlphaFactor :: "32 word"
  rs_blendDstAlphaFactor :: "32 word"
  rs_blendOpAlpha :: "32 word"

record StaticState =
  rs_depthClipEnable :: bool
  rs_forcedSamplerCount :: "32 word"
  rs_alphaToCoverage :: bool
  rs_depthTestEnable :: bool
  rs_depthWriteEnable :: bool
  rs_depthTestFunc :: "32 word"
  rs_depthBoundsEnable :: bool
  rs_stencilTestEnable :: bool
  rs_stencilTestOpStencilFail :: "32 word"
  rs_stencilTestOpPass :: "32 word"
  rs_stencilTestOpDepthFail :: "32 word"
  rs_stencilTestFunc :: "32 word"
  rs_indenpendentBlendEnabled :: bool
  rs_blendStates :: "nat \<Rightarrow> BlendParams"
  rs_colorMask :: "32 word"

text \<open>
  \<^verbatim>\<open>RenderPassClass::Identifier\<close>, the description of a render pass that is not native.
  The constructor compares \<^verbatim>\<open>depthState\<close> with \<^verbatim>\<open>NO_DEPTH\<close> and \<^verbatim>\<open>RO_DEPTH\<close> only;
  \<^verbatim>\<open>RW_DEPTH\<close> stands for every other value. The array \<^verbatim>\<open>colorSamples\<close> is a function
  of the index.
\<close>

datatype DepthState = NO_DEPTH | RO_DEPTH | RW_DEPTH

record RenderPassClassIdentifier =
  colorSamples :: "nat \<Rightarrow> 8 word"
  depthState :: DepthState
  colorTargetMask :: "32 word"

text \<open>
  A native render pass (\<^verbatim>\<open>RenderPassResource\<close>), as far as the pipeline reads it: its
  answers per subpass, its handle, and the count of pipeline compilations that hold it.
\<close>

record RenderPassResource =
  getMSAASamples :: "32 word \<Rightarrow> VkSampleCountFlagBits"
  rp_getHandle :: "64 word"
  hasDepthAtSubpass :: "32 word \<Rightarrow> bool"
  getColorWriteMaskAtSubpass :: "32 word \<Rightarrow> 32 word"
  pipelineCompileRefs :: int

definition addPipelineCompileRef :: "RenderPassResource \<Rightarrow> RenderPassResource" where
  "addPipelineCompileRef rp = rp\<lparr>pipelineCompileRefs := pipelineCompileRefs rp + 1\<rparr>"

definition releasePipelineCompileRef :: "RenderPassResource \<Rightarrow> RenderPassResource" where
  "releasePipelineCompileRef rp = rp\<lparr>pipelineCompileRefs := pipelineCompileRefs rp - 1\<rparr>"

text \<open>
  The create-info structures, with the fields the constructor computes from its input.
  The members \<^verbatim>\<open>front\<close> and \<^verbatim>\<open>back\<close> of the depth/stencil state are \<^verbatim>\<open>stencil_front\<close>
  and \<^verbatim>\<open>stencil_back\<close> here.
\<close>

record VkPipelineRasterizationStateCreateInfo =
  depthClampEnable :: bool
  rasterizerDiscardEnable :: bool
  depthBiasEnable :: bool

record VkPipelineMultisampleStateCreateInfo =
  rasterizationSamples :: VkSampleCountFlagBits
  sampleShadingEnable :: bool
  alphaToCoverageEnable :: bool
  alphaToOneEnable :: bool

record VkStencilOpState =
  failOp :: "32 word"
  passOp :: "32 word"
  depthFailOp :: "32 word"
  compareOp :: "32 word"
  compareMask :: "32 word"
  writeMask :: "32 word"
  reference :: "32 word"

record VkPipelineDepthStencilStateCreateInfo =
  depthTestEnable :: bool
  depthWriteEnable :: bool
  depthCompareOp :: "32 word"
  depthBoundsTestEnable :: bool
  stencilTestEnable :: bool
  stencil_front :: VkStencilOpState
  stencil_back :: VkStencilOpState

record VkPipelineColorBlendAttachmentState =
  blendEnable :: bool
  srcColorBlendFactor :: "32 word"
  dstColorBlendFactor :: "32 word"
  colorBlendOp :: "32 word"
  srcAlphaBlendFactor :: "32 word"
  dstAlphaBlendFactor :: "32 word"
  alphaBlendOp :: "32 word"
  colorWriteMask :: "32 word"

record VkPipelineColorBlendStateCreateInfo =
  logicOpEnable :: bool
  attachmentCount :: nat

record VkGraphicsPipelineCreateInfo =
  flags :: "32 word"
  gpci_layout :: "64 word"
  renderPass :: "64 word"
  subpass :: "32 word"
  basePipelineHandle :: VulkanPipelineHandle
  basePipelineIndex :: int

definition VK_PIPELINE_CREATE_ALLOW_DERIVATIVES_BIT :: "32 word" where
  "VK_PIPELINE_CREATE_ALLOW_DERIVATIVES_BIT = 2"

definition VK_PIPELINE_CREATE_DERIVATIVE_BIT :: "32 word" where
  "VK_PIPELINE_CREATE_DERIVATIVE_BIT = 4"

definition VK_COLOR_COMPONENT_RGBA_BIT :: "32 word" where
  "VK_COLOR_COMPONENT_RGBA_BIT = 15"

text \<open>
  \<^verbatim>\<open>GraphicsPipelineCompileScratchData\<close>. The array \<^verbatim>\<open>attachmentStates\<close> is a function of
  the index; \<^verbatim>\<open>parentPipe\<close> and \<^verbatim>\<open>nativeRP\<close> are pointers, \<^verbatim>\<open>None\<close> when null; the native
  render pass is kept with the object it points to.
\<close>

record GraphicsPipelineCompileScratchData =
  gr_allocated :: bool
  gr_vkCache :: "64 word"
  gr_progIdx :: "32 word"
  varIdx :: "32 word"
  varTotal :: "32 word"
  nativeRP :: "RenderPassResource option"
  raster :: VkPipelineRasterizationStateCreateInfo
  multisample :: VkPipelineMultisampleStateCreateInfo
  depthStencil :: VkPipelineDepthStencilStateCreateInfo
  attachmentStates :: "nat \<Rightarrow> VkPipelineColorBlendAttachmentState"
  colorBlendState :: VkPipelineColorBlendStateCreateInfo
  gpci :: VkGraphicsPipelineCreateInfo
  parentPipe :: "addr option"

text \<open>
  \<^verbatim>\<open>GraphicsPipeline::CreationInfo\<close> with what the constructor looks up through it:
  \<^verbatim>\<open>staticState\<close> is \<^verbatim>\<open>info.rsBackend.getStatic(info.varDsc.state.renderState.staticIdx)\<close>,
  \<^verbatim>\<open>legacyPass\<close> is the handle \<^verbatim>\<open>info.pass_man.getPassClass(info.varDsc.rpClass)->getPass(device, 0)\<close>
  returns, \<^verbatim>\<open>fsOutputMask\<close> is \<^verbatim>\<open>layout->registers.fs().header.outputMask\<close> and
  \<^verbatim>\<open>layoutHandle\<close> is \<^verbatim>\<open>layout->handle\<close>.
\<close>

record GraphicsPipelineCreationInfo =
  info_scratch :: GraphicsPipelineCompileScratchData
  info_nativeRP :: "RenderPassResource option"
  varDsc_subpass :: "32 word"
  varDsc_rpClass :: RenderPassClassIdentifier
  staticState :: StaticState
  legacyPass :: "64 word"
  fsOutputMask :: "8 word"
  info_layoutHandle :: "64 word"
  info_parentPipeline :: "addr option"
  info_dynStateMask :: "8 word"

text \<open>
  The constants and the device the constructor depends on: \<^verbatim>\<open>Driver3dRenderTarget::MAX_SIMRT\<close>,
  \<^verbatim>\<open>shaders::RenderState::NumIndependentBlendParameters\<close>, whether \<^verbatim>\<open>_TARGET_ANDROID\<close> is
  set, and the device limit \<^verbatim>\<open>framebufferNoAttachmentsSampleCounts\<close>.
\<close>

record DriverConfig =
  MAX_SIMRT :: nat
  NumIndependentBlendParameters :: nat
  TARGET_ANDROID :: bool
  framebufferNoAttachmentsSampleCounts :: VkSampleCountFlags

subsection \<open>GraphicsPipeline: the constructor\<close>

text \<open>
  The render pass dependencies, resolved from the native render pass when there is one
  and from the render pass class otherwise (the first block of the constructor).
\<close>

definition resolved_sampleCount :: "GraphicsPipelineCreationInfo \<Rightarrow> VkSampleCountFlagBits" where
  "resolved_sampleCount info =
     (case info_nativeRP info of
        Some rp \<Rightarrow> getMSAASamples rp (varDsc_subpass info)
      | None \<Rightarrow> ucast (max (colorSamples (varDsc_rpClass info) 0) 1))"

definition resolved_renderPassHandle :: "GraphicsPipelineCreationInfo \<Rightarrow> 64 word" where
  "resolved_renderPassHandle info =
     (case info_nativeRP info of Some rp \<Rightarrow> rp_getHandle rp | None \<Rightarrow> legacyPass info)"

definition resolved_hasDepth :: "GraphicsPipelineCreationInfo \<Rightarrow> bool" where
  "resolved_hasDepth info =
     (case info_nativeRP info of
        Some rp \<Rightarrow> hasDepthAtSubpass rp (varDsc_subpass info)
      | None \<Rightarrow> depthState (varDsc_rpClass info) \<noteq> NO_DEPTH)"

definition resolved_forceNoZWrite :: "GraphicsPipelineCreationInfo \<Rightarrow> bool" where
  "resolved_forceNoZWrite info =
     (case info_nativeRP info of
        Some rp \<Rightarrow> False
      | None \<Rightarrow> depthState (varDsc_rpClass info) = RO_DEPTH)"

definition resolved_rpColorTargetMask :: "GraphicsPipelineCreationInfo \<Rightarrow> 32 word" where
  "resolved_rpColorTargetMask info =
     (case info_nativeRP info of
        Some rp \<Rightarrow> getColorWriteMaskAtSubpass rp (varDsc_subpass info)
      | None \<Rightarrow> colorTargetMask (varDsc_rpClass info))"

text \<open>The test \<^verbatim>\<open>isResolveAttachment\<close> of the attachment loop, at slot \<^verbatim>\<open>i\<close>.\<close>

definition isResolveAttachment :: "GraphicsPipelineCreationInfo \<Rightarrow> nat \<Rightarrow> bool" where
  "isResolveAttachment info i =
     (i > 0 \<and> colorSamples (varDsc_rpClass info) (i - 1) > 1 \<and> info_nativeRP info = None)"

text \<open>
  What one pass through the loop body writes to \<^verbatim>\<open>csd.attachmentStates[attachmentCount]\<close>,
  from the loop variables \<^verbatim>\<open>i\<close>, \<^verbatim>\<open>attachmentCount\<close>, \<^verbatim>\<open>swMask\<close> and \<^verbatim>\<open>rpMask\<close>.
\<close>

definition attachmentStateFor ::
  "DriverConfig \<Rightarrow> GraphicsPipelineCreationInfo \<Rightarrow> nat \<Rightarrow> nat \<Rightarrow> 8 word \<Rightarrow> 8 word
     \<Rightarrow> VkPipelineColorBlendAttachmentState" where
  "attachmentStateFor cfg info i attachmentCount' swMask rpMask =
     (let blendStateId =
            (if rs_indenpendentBlendEnabled (staticState info) \<and> i < NumIndependentBlendParameters cfg
             then i else 0);
          blendState = rs_blendStates (staticState info) blendStateId
      in \<lparr>blendEnable = rs_blendEnable blendState,
          srcColorBlendFactor = rs_blendSrcFactor blendState,
          dstColorBlendFactor = rs_blendDstFactor blendState,
          colorBlendOp = rs_blendOp blendState,
          srcAlphaBlendFactor =
            (if rs_blendSeparateAlphaEnable blendState then rs_blendSrcAlphaFactor blendState
             else rs_blendSrcFactor blendState),
          dstAlphaBlendFactor =
            (if rs_blendSeparateAlphaEnable blendState then rs_blendDstAlphaFactor blendState
             else rs_blendDstFactor blendState),
          alphaBlendOp =
            (if rs_blendSeparateAlphaEnable blendState then rs_blendOpAlpha blendState
             else rs_blendOp blendState),
          colorWriteMask =
            (if swMask AND rpMask AND 1 \<noteq> 0
             then drop_bit (attachmentCount' * 4) (rs_colorMask (staticState info))
                    AND VK_COLOR_COMPONENT_RGBA_BIT
             else 0)\<rparr>)"

text \<open>
  The loop \<^verbatim>\<open>for (i = 0; (i < MAX_SIMRT) && rpMask; ++i, rpMask >>= 1)\<close>, entered at \<^verbatim>\<open>i\<close>
  with \<^verbatim>\<open>rpMask\<close>, over the triple of \<^verbatim>\<open>attachmentCount\<close>, \<^verbatim>\<open>swMask\<close> and the array
  \<^verbatim>\<open>csd.attachmentStates\<close>. A resolve attachment takes the \<^verbatim>\<open>continue\<close>: the loop variables
  advance, nothing else changes.
\<close>

function attachmentsLoop ::
  "DriverConfig \<Rightarrow> GraphicsPipelineCreationInfo \<Rightarrow> nat \<Rightarrow> 8 word
     \<Rightarrow> nat \<times> 8 word \<times> (nat \<Rightarrow> VkPipelineColorBlendAttachmentState)
     \<Rightarrow> nat \<times> 8 word \<times> (nat \<Rightarrow> VkPipelineColorBlendAttachmentState)" where
  "attachmentsLoop cfg info i rpMask (attachmentCount', swMask, states) =
     (if i < MAX_SIMRT cfg \<and> rpMask \<noteq> 0
      then (if isResolveAttachment info i
            then attachmentsLoop cfg info (i + 1) (drop_bit 1 rpMask) (attachmentCount', swMask, states)
            else attachmentsLoop cfg info (i + 1) (drop_bit 1 rpMask)
                   (attachmentCount' + 1, drop_bit 1 swMask,
                    states(attachmentCount' := attachmentStateFor cfg info i attachmentCount' swMask rpMask)))
      else (attachmentCount', swMask, states))"
  by pat_completeness auto
termination
  by (relation "measure (\<lambda>(cfg, info, i, rpMask, st). MAX_SIMRT cfg - i)") auto

declare attachmentsLoop.simps [simp del]

text \<open>
  The constructor fills the scratch \<^verbatim>\<open>*info.scratch\<close> one create-info structure after
  the other; each definition below is the value one structure has when the constructor
  returns. Not modelled, since no property below reads them: the vertex input and
  tessellation states, the cull mode and the polygon mode, the conservative rasterisation
  chain, the constant float members, the dynamic state list and the shader stages.
\<close>

text \<open>
  \<^verbatim>\<open>csd.raster\<close>: the assignments from the static state, then the block
  \<^verbatim>\<open>if (!hasDepth)\<close> at the end of the constructor.
\<close>

definition ctor_raster ::
  "DriverConfig \<Rightarrow> GraphicsPipelineCreationInfo \<Rightarrow> VkPipelineRasterizationStateCreateInfo" where
  "ctor_raster cfg info =
     (let raster0 = \<lparr>depthClampEnable =
                        (if TARGET_ANDROID cfg then False
                         else \<not> rs_depthClipEnable (staticState info)),
                     rasterizerDiscardEnable = False,
                     depthBiasEnable = True\<rparr>
      in if \<not> resolved_hasDepth info
         then raster0\<lparr>depthBiasEnable := False, depthClampEnable := False\<rparr>
         else raster0)"

text \<open>
  \<^verbatim>\<open>csd.multisample\<close>, or the assertion that fails on the way: those of
  \<^verbatim>\<open>checkSampleCount\<close>, which is called when the forced sample count is not zero, with the
  colour target mask cast to its \<^verbatim>\<open>uint8_t\<close> parameter, and then the assertion on alpha to
  coverage.
\<close>

definition ctor_rasterizationSamples ::
  "DriverConfig \<Rightarrow> GraphicsPipelineCreationInfo \<Rightarrow> assert_error + VkSampleCountFlagBits" where
  "ctor_rasterizationSamples cfg info =
     (let forcedSamplerCount = rs_forcedSamplerCount (staticState info)
      in if forcedSamplerCount = 0 then Inr (resolved_sampleCount info)
         else checkSampleCount (framebufferNoAttachmentsSampleCounts cfg)
                (rs_forcedSamplerCount (staticState info))
                (ucast (resolved_rpColorTargetMask info))
                (if resolved_hasDepth info then 1 else 0))"

definition ctor_multisample ::
  "DriverConfig \<Rightarrow> GraphicsPipelineCreationInfo \<Rightarrow> assert_error + VkPipelineMultisampleStateCreateInfo" where
  "ctor_multisample cfg info =
     (case ctor_rasterizationSamples cfg info of
        Inl e \<Rightarrow> Inl e
      | Inr samples \<Rightarrow>
          let multisample0 = \<lparr>rasterizationSamples = samples,
                               sampleShadingEnable = False,
                               alphaToCoverageEnable = rs_alphaToCoverage (staticState info),
                               alphaToOneEnable = False\<rparr>
          in if \<not> (\<not> alphaToCoverageEnable multisample0
                    \<or> (alphaToCoverageEnable multisample0
                        \<and> rasterizationSamples multisample0 AND VK_SAMPLE_COUNT_1_BIT = 0))
             then Inl AlphaToCoverageWithoutMSAA
             else Inr multisample0)"

text \<open>
  \<^verbatim>\<open>csd.depthStencil\<close>: the assignments from the static state, then the block
  \<^verbatim>\<open>if (!hasDepth)\<close>.
\<close>

definition ctor_depthStencil ::
  "GraphicsPipelineCreationInfo \<Rightarrow> VkPipelineDepthStencilStateCreateInfo" where
  "ctor_depthStencil info =
     (let st = staticState info;
          front0 = \<lparr>failOp = rs_stencilTestOpStencilFail st,
                     passOp = rs_stencilTestOpPass st,
                     depthFailOp = rs_stencilTestOpDepthFail st,
                     compareOp = rs_stencilTestFunc st,
                     compareMask = 255, writeMask = 255, reference = 255\<rparr>;
          depthStencil0 = \<lparr>depthTestEnable = rs_depthTestEnable st,
                            depthWriteEnable = (rs_depthWriteEnable st \<and> \<not> resolved_forceNoZWrite info),
                            depthCompareOp = rs_depthTestFunc st,
                            depthBoundsTestEnable = rs_depthBoundsEnable st,
                            stencilTestEnable = rs_stencilTestEnable st,
                            stencil_front = front0,
                            stencil_back = front0\<rparr>
      in if \<not> resolved_hasDepth info
         then depthStencil0\<lparr>depthTestEnable := False, depthWriteEnable := False,
                depthBoundsTestEnable := False, stencilTestEnable := False\<rparr>
         else depthStencil0)"

text \<open>
  The colour attachments: \<^verbatim>\<open>attachmentCount\<close>, the final \<^verbatim>\<open>swMask\<close> and the array
  \<^verbatim>\<open>csd.attachmentStates\<close> after the block \<^verbatim>\<open>if (rpColorTargetMask)\<close>, where \<^verbatim>\<open>rpMask\<close>
  starts as the mask cast to \<^verbatim>\<open>uint8_t\<close>.
\<close>

definition ctor_attachments ::
  "DriverConfig \<Rightarrow> GraphicsPipelineCreationInfo
     \<Rightarrow> nat \<times> 8 word \<times> (nat \<Rightarrow> VkPipelineColorBlendAttachmentState)" where
  "ctor_attachments cfg info =
     (if resolved_rpColorTargetMask info \<noteq> 0
      then attachmentsLoop cfg info 0 (ucast (resolved_rpColorTargetMask info))
             (0, fsOutputMask info, attachmentStates (info_scratch info))
      else (0, fsOutputMask info, attachmentStates (info_scratch info)))"

definition ctor_gpci :: "GraphicsPipelineCreationInfo \<Rightarrow> VkGraphicsPipelineCreateInfo" where
  "ctor_gpci info =
     \<lparr>flags = VK_PIPELINE_CREATE_ALLOW_DERIVATIVES_BIT,
      gpci_layout = info_layoutHandle info,
      renderPass = resolved_renderPassHandle info,
      subpass = varDsc_subpass info,
      basePipelineHandle = VK_NULL_HANDLE,
      basePipelineIndex = 0\<rparr>"

text \<open>
  The scratch when the constructor returns, or the assertion that failed. A native
  render pass gets its compile reference.
\<close>

definition GraphicsPipeline_fillScratch ::
  "DriverConfig \<Rightarrow> 64 word \<Rightarrow> GraphicsPipelineCreationInfo
     \<Rightarrow> assert_error + GraphicsPipelineCompileScratchData" where
  "GraphicsPipeline_fillScratch cfg cache info =
     (case ctor_multisample cfg info of
        Inl e \<Rightarrow> Inl e
      | Inr ms \<Rightarrow>
          Inr ((info_scratch info)
                 \<lparr>gr_vkCache := cache,
                  nativeRP := map_option addPipelineCompileRef (info_nativeRP info),
                  raster := ctor_raster cfg info,
                  multisample := ms,
                  depthStencil := ctor_depthStencil info,
                  attachmentStates := snd (snd (ctor_attachments cfg info)),
                  colorBlendState :=
                    \<lparr>logicOpEnable = False, attachmentCount = fst (ctor_attachments cfg info)\<rparr>,
                  gpci := ctor_gpci info,
                  parentPipe := info_parentPipeline info\<rparr>))"

record GraphicsPipeline = BasePipeline +
  dynStateMask :: "8 word"
  gr_compileScratch :: "GraphicsPipelineCompileScratchData option"

text \<open>
  \<^verbatim>\<open>GraphicsPipeline::GraphicsPipeline(device, cache, l, info)\<close>: the new object, or the
  assertion that failed.
\<close>

definition GraphicsPipeline_ctor ::
  "DriverConfig \<Rightarrow> 64 word \<Rightarrow> addr \<Rightarrow> GraphicsPipelineCreationInfo \<Rightarrow> assert_error + GraphicsPipeline" where
  "GraphicsPipeline_ctor cfg cache l info =
     (case GraphicsPipeline_fillScratch cfg cache info of
        Inl e \<Rightarrow> Inl e
      | Inr csd \<Rightarrow>
          Inr \<lparr>layout = l, handle = VK_NULL_HANDLE, dynStateMask = info_dynStateMask info,
               gr_compileScratch = Some csd\<rparr>)"

subsection \<open>GraphicsPipeline: compilation\<close>

text \<open>
  The native \<^verbatim>\<open>vkCreateGraphicsPipelines\<close>: from the pipeline cache and the create-info
  to the \<^verbatim>\<open>VkResult\<close> and the handle it writes.
\<close>

type_synonym vkCreateGraphicsPipelines =
  "64 word \<Rightarrow> VkGraphicsPipelineCreateInfo \<Rightarrow> VkResult \<times> VulkanPipelineHandle"

text \<open>
  The first block of \<^verbatim>\<open>GraphicsPipeline::createPipelineObject\<close>, on the scratch: the
  parent is read through its pointer in the memory \<^verbatim>\<open>mem\<close> of pipeline objects, as it is
  at this moment.
\<close>

definition createPipelineObject_parentBlock ::
  "(addr \<Rightarrow> GraphicsPipeline option) \<Rightarrow> GraphicsPipelineCompileScratchData
     \<Rightarrow> GraphicsPipelineCompileScratchData outcome" where
  "createPipelineObject_parentBlock mem csd =
     (case parentPipe csd of
        None \<Rightarrow> Returns csd
      | Some pp \<Rightarrow>
          (case mem pp of
             None \<Rightarrow> InvalidPointer
           | Some parent \<Rightarrow>
               Returns
                 (if \<not> is_null (getCompiledHandle parent)
                  then csd\<lparr>gpci := (gpci csd)
                         \<lparr>flags := flags (gpci csd) OR VK_PIPELINE_CREATE_DERIVATIVE_BIT,
                          basePipelineIndex := - 1,
                          basePipelineHandle := getHandle parent\<rparr>\<rparr>
                  else csd)))"

text \<open>
  \<^verbatim>\<open>GraphicsPipeline::createPipelineObject\<close>: the block above, then the native call
  under \<^verbatim>\<open>VULKAN_EXIT_ON_FAIL\<close>. The result is the handle and the pipeline with its
  updated scratch.
\<close>

definition GraphicsPipeline_createPipelineObject ::
  "vkCreateGraphicsPipelines \<Rightarrow> (addr \<Rightarrow> GraphicsPipeline option) \<Rightarrow> GraphicsPipeline
     \<Rightarrow> (VulkanPipelineHandle \<times> GraphicsPipeline) outcome" where
  "GraphicsPipeline_createPipelineObject native mem this =
     (case gr_compileScratch this of
        None \<Rightarrow> InvalidPointer
      | Some csd \<Rightarrow>
          (case createPipelineObject_parentBlock mem csd of
             Returns csd' \<Rightarrow>
               (let (r, ret) = native (gr_vkCache csd') (gpci csd')
                in VULKAN_EXIT_ON_FAIL r (Returns (ret, this\<lparr>gr_compileScratch := Some csd'\<rparr>)))
           | FatalExit \<Rightarrow> FatalExit
           | NeverReturns \<Rightarrow> NeverReturns
           | InvalidPointer \<Rightarrow> InvalidPointer))"

text \<open>
  \<^verbatim>\<open>GraphicsPipeline::compile()\<close>. The result is the pipeline, the native render pass of
  the scratch after its compile reference is released, and the messages logged.
\<close>

definition GraphicsPipeline_compile ::
  "vkCreateGraphicsPipelines \<Rightarrow> CompileTiming \<Rightarrow> (addr \<Rightarrow> GraphicsPipeline option) \<Rightarrow> GraphicsPipeline
     \<Rightarrow> (GraphicsPipeline \<times> RenderPassResource option \<times> log_message list) outcome" where
  "GraphicsPipeline_compile native t mem this =
     (case GraphicsPipeline_createPipelineObject native mem this of
        Returns (retHandle, this1) \<Rightarrow>
          (case gr_compileScratch this1 of
             None \<Rightarrow> InvalidPointer
           | Some csd \<Rightarrow>
               let log = (if is_null retHandle then [Logerr_not_compiled_but_result_was_ok]
                          else if logsLongCompile t (gr_allocated csd) then [Debug_compiled_in]
                          else []);
                   rp = map_option releasePipelineCompileRef (nativeRP csd);
                   this2 = (if gr_allocated csd then setCompiledHandle retHandle this1
                            else setHandle retHandle this1)
               in Returns (this2\<lparr>gr_compileScratch := None\<rparr>, rp, log))
      | FatalExit \<Rightarrow> FatalExit
      | NeverReturns \<Rightarrow> NeverReturns
      | InvalidPointer \<Rightarrow> InvalidPointer)"

subsection \<open>Program identifiers\<close>

text \<open>
  Modelled from the spec: the type \<^verbatim>\<open>ProgramID\<close> is outside the two files. In the spec a
  Program Identifier is "an opaque, strongly-typed index distinguishing
  compute/graphics/raytracing namespaces; maps to a dense storage slot". The tag
  \<^verbatim>\<open>NoProgramTag\<close> stands for an identifier of none of the three namespaces.
\<close>

datatype ProgramTag = GraphicsProgramTag | ComputeProgramTag | RaytraceProgramTag | NoProgramTag

record ProgramID =
  programTag :: ProgramTag
  programIndex :: nat

text \<open>
  Modelled from the spec: \<^verbatim>\<open>ProgramType::checkID\<close> of a pipeline kind is outside the two
  files; it tells whether the identifier is of the kind's namespace.
\<close>

definition checkID :: "ProgramTag \<Rightarrow> ProgramID \<Rightarrow> bool" where
  "checkID kind program = (programTag program = kind)"

text \<open>
  Modelled from the spec: \<^verbatim>\<open>ProgramType::getIndexFromID\<close> is outside the two files; it
  is the "dense storage slot" the identifier maps to.
\<close>

definition getIndexFromID :: "ProgramID \<Rightarrow> nat" where
  "getIndexFromID program = programIndex program"

text \<open>
  Modelled from the spec: \<^verbatim>\<open>ProgramType::makeID\<close> is outside the two files; it is the
  identifier of a slot in the kind's namespace.
\<close>

definition makeID :: "ProgramTag \<Rightarrow> nat \<Rightarrow> ProgramID" where
  "makeID kind index = \<lparr>programTag = kind, programIndex = index\<rparr>"

subsection \<open>PipelineManagerStorage\<close>

text \<open>
  The template \<^verbatim>\<open>PipelineManagerStorage<PipelineType>\<close>. An entry of \<^verbatim>\<open>layouts\<close> is a
  pointer with the layout object it points to; an entry of \<^verbatim>\<open>pipelines\<close> is \<^verbatim>\<open>None\<close> for
  \<^verbatim>\<open>nullptr\<close>, or a pointer with the pipeline object that \<^verbatim>\<open>add\<close> constructed. The storage
  does not look into a pipeline: the object is the constructor's arguments.
  \<^verbatim>\<open>storageKind\<close> is the namespace of \<^verbatim>\<open>PipelineType::ProgramType\<close>.

  The template's parameters are arguments of the operations: \<^verbatim>\<open>matches\<close> is
  \<^verbatim>\<open>LayoutType::matches\<close>, \<^verbatim>\<open>newLayout\<close> is the constructor of \<^verbatim>\<open>LayoutType\<close>. The
  addresses that \<^verbatim>\<open>new\<close> returns are arguments too.
\<close>

record 'li CreationInfo =
  info_layout :: 'li

record ('li, 'ci) PipelineObject =
  ctor_program :: ProgramID
  ctor_cache :: "64 word"
  ctor_layout :: addr
  ctor_info :: "('li, 'ci) CreationInfo_scheme"

record ('layout, 'li, 'ci) PipelineManagerStorage =
  storageKind :: ProgramTag
  layouts :: "(addr \<times> 'layout) list"
  pipelines :: "(addr \<times> ('li, 'ci) PipelineObject) option list"

text \<open>The scan \<^verbatim>\<open>for (auto layout : layouts) if (layout->matches(layoutInfo)) return layout;\<close>\<close>

fun findLayout :: "('layout \<Rightarrow> 'li \<Rightarrow> bool) \<Rightarrow> (addr \<times> 'layout) list \<Rightarrow> 'li \<Rightarrow> addr option" where
  "findLayout matches [] layoutInfo = None"
| "findLayout matches ((a, l) # ls) layoutInfo =
     (if matches l layoutInfo then Some a else findLayout matches ls layoutInfo)"

text \<open>
  \<^verbatim>\<open>findOrAddLayout(device, layoutInfo)\<close>: the layout found, or a new layout at the address
  \<^verbatim>\<open>fresh\<close>, pushed to the back of \<^verbatim>\<open>layouts\<close>.
\<close>

definition findOrAddLayout ::
  "('layout \<Rightarrow> 'li \<Rightarrow> bool) \<Rightarrow> ('li \<Rightarrow> 'layout) \<Rightarrow> addr \<Rightarrow> 'li
     \<Rightarrow> ('layout, 'li, 'ci) PipelineManagerStorage
     \<Rightarrow> addr \<times> ('layout, 'li, 'ci) PipelineManagerStorage" where
  "findOrAddLayout matches newLayout fresh layoutInfo s =
     (case findLayout matches (layouts s) layoutInfo of
        Some a \<Rightarrow> (a, s)
      | None \<Rightarrow> (fresh, s\<lparr>layouts := layouts s @ [(fresh, newLayout layoutInfo)]\<rparr>))"

text \<open>\<^verbatim>\<open>ensureSpaceForIndex(index)\<close>: the new slots are null.\<close>

definition ensureSpaceForIndex ::
  "nat \<Rightarrow> ('layout, 'li, 'ci) PipelineManagerStorage \<Rightarrow> ('layout, 'li, 'ci) PipelineManagerStorage" where
  "ensureSpaceForIndex index s =
     (let storageExtend =
            (if length (pipelines s) \<le> index then index - length (pipelines s) + 1 else 0)
      in if storageExtend \<noteq> 0
         then s\<lparr>pipelines := pipelines s @ replicate storageExtend None\<rparr>
         else s)"

text \<open>
  \<^verbatim>\<open>add(device, program, cache, info)\<close>; \<^verbatim>\<open>freshLayout\<close> and \<^verbatim>\<open>freshPipeline\<close> are the
  addresses of the objects it may allocate.
\<close>

definition add ::
  "('layout \<Rightarrow> 'li \<Rightarrow> bool) \<Rightarrow> ('li \<Rightarrow> 'layout) \<Rightarrow> addr \<Rightarrow> addr \<Rightarrow> ProgramID \<Rightarrow> 64 word
     \<Rightarrow> ('li, 'ci) CreationInfo_scheme \<Rightarrow> ('layout, 'li, 'ci) PipelineManagerStorage
     \<Rightarrow> assert_error + ('layout, 'li, 'ci) PipelineManagerStorage" where
  "add matches newLayout freshLayout freshPipeline program cache info s =
     (if \<not> checkID (storageKind s) program then Inl ProgramIdCheckFailed
      else
        let (l, s1) = findOrAddLayout matches newLayout freshLayout (info_layout info) s;
            index = getIndexFromID program;
            s2 = ensureSpaceForIndex index s1
        in if pipelines s2 ! index \<noteq> None then Inl SlotNotEmpty
           else Inr (s2\<lparr>pipelines := (pipelines s2)
                       [index := Some (freshPipeline,
                                       \<lparr>ctor_program = program, ctor_cache = cache,
                                        ctor_layout = l, ctor_info = info\<rparr>)]\<rparr>))"

text \<open>
  \<^verbatim>\<open>takeOut(index)\<close>. The slot is cleared before the assertion on what it held. An index
  past the end of \<^verbatim>\<open>pipelines\<close> is an access out of bounds.
\<close>

definition takeOut ::
  "nat \<Rightarrow> ('layout, 'li, 'ci) PipelineManagerStorage
     \<Rightarrow> assert_error + ((addr \<times> ('li, 'ci) PipelineObject) \<times> ('layout, 'li, 'ci) PipelineManagerStorage)" where
  "takeOut index s =
     (if index < length (pipelines s)
      then (case pipelines s ! index of
              None \<Rightarrow> Inl TakenOutNull
            | Some ret \<Rightarrow> Inr (ret, s\<lparr>pipelines := (pipelines s)[index := None]\<rparr>))
      else Inl IndexOutOfBounds)"

text \<open>\<^verbatim>\<open>valid(program)\<close>: the four tests, in the source's order.\<close>

definition valid :: "ProgramID \<Rightarrow> ('layout, 'li, 'ci) PipelineManagerStorage \<Rightarrow> bool" where
  "valid program s =
     (let index = getIndexFromID program
      in checkID (storageKind s) program \<and> index \<ge> 0 \<and> index < length (pipelines s)
         \<and> pipelines s ! index \<noteq> None)"

text \<open>\<^verbatim>\<open>get(program)\<close>: the object behind the slot's pointer.\<close>

definition get ::
  "ProgramID \<Rightarrow> ('layout, 'li, 'ci) PipelineManagerStorage
     \<Rightarrow> assert_error + (addr \<times> ('li, 'ci) PipelineObject)" where
  "get program s =
     (if \<not> checkID (storageKind s) program then Inl ProgramIdCheckFailed
      else if getIndexFromID program < length (pipelines s)
      then (case pipelines s ! getIndexFromID program of
              None \<Rightarrow> Inl NullPipelineDereferenced
            | Some p \<Rightarrow> Inr p)
      else Inl IndexOutOfBounds)"

text \<open>
  The operations a caller runs on one storage between two calls of \<^verbatim>\<open>add\<close>; \<^verbatim>\<open>unload\<close>,
  which destroys every pipeline and every layout, is not among them.
\<close>

datatype ('li, 'ci) storage_op =
    Add addr addr ProgramID "64 word" "('li, 'ci) CreationInfo_scheme"
  | TakeOut nat

fun runOp ::
  "('layout \<Rightarrow> 'li \<Rightarrow> bool) \<Rightarrow> ('li \<Rightarrow> 'layout) \<Rightarrow> ('li, 'ci) storage_op
     \<Rightarrow> ('layout, 'li, 'ci) PipelineManagerStorage
     \<Rightarrow> assert_error + ('layout, 'li, 'ci) PipelineManagerStorage" where
  "runOp matches newLayout (Add freshLayout freshPipeline program cache info) s =
     add matches newLayout freshLayout freshPipeline program cache info s"
| "runOp matches newLayout (TakeOut index) s =
     (case takeOut index s of Inl e \<Rightarrow> Inl e | Inr (ret, s') \<Rightarrow> Inr s')"

fun runOps ::
  "('layout \<Rightarrow> 'li \<Rightarrow> bool) \<Rightarrow> ('li \<Rightarrow> 'layout) \<Rightarrow> ('li, 'ci) storage_op list
     \<Rightarrow> ('layout, 'li, 'ci) PipelineManagerStorage
     \<Rightarrow> assert_error + ('layout, 'li, 'ci) PipelineManagerStorage" where
  "runOps matches newLayout [] s = Inr s"
| "runOps matches newLayout (op # ops) s =
     (case runOp matches newLayout op s of
        Inl e \<Rightarrow> Inl e
      | Inr s' \<Rightarrow> runOps matches newLayout ops s')"

text \<open>The layout pointer of the pipeline in a slot, if the slot holds one.\<close>

definition layoutOfSlot :: "nat \<Rightarrow> ('layout, 'li, 'ci) PipelineManagerStorage \<Rightarrow> addr option" where
  "layoutOfSlot index s =
     (if index < length (pipelines s)
      then map_option (\<lambda>(a, p). ctor_layout p) (pipelines s ! index)
      else None)"

subsection \<open>PipelineManager\<close>

text \<open>
  The manager's storages. \<^verbatim>\<open>raytrace\<close> is a member only when \<^verbatim>\<open>D3D_HAS_RAY_TRACING\<close> is
  set, which is the first argument of \<^verbatim>\<open>visit\<close>.
\<close>

record ('layout, 'li, 'ci) PipelineManager =
  graphics :: "('layout, 'li, 'ci) PipelineManagerStorage"
  compute :: "('layout, 'li, 'ci) PipelineManagerStorage"
  raytrace :: "('layout, 'li, 'ci) PipelineManagerStorage"
  asyncCompileAllowed :: bool

text \<open>
  The macro \<^verbatim>\<open>PROCESS_PIPELINE_STORAGE_ENTRY(Type)\<close> inside \<^verbatim>\<open>visit\<close>: \<^verbatim>\<open>None\<close> when the
  identifier is not of the type's namespace and control falls through to the next
  entry, otherwise the value \<^verbatim>\<open>visit\<close> returns and the state after the callback. The
  callback \<^verbatim>\<open>func\<close> acts on a state \<^verbatim>\<open>w\<close> of the caller's.
\<close>

definition processPipelineStorageEntry ::
  "('layout, 'li, 'ci) PipelineManagerStorage \<Rightarrow> ProgramID
     \<Rightarrow> (ProgramTag \<Rightarrow> addr \<times> ('li, 'ci) PipelineObject \<Rightarrow> 'w \<Rightarrow> 'w) \<Rightarrow> 'w
     \<Rightarrow> (assert_error + bool \<times> 'w) option" where
  "processPipelineStorageEntry st program func w =
     (if checkID (storageKind st) program
      then Some (if \<not> valid program st then Inr (False, w)
                 else (case get program st of
                         Inl e \<Rightarrow> Inl e
                       | Inr p \<Rightarrow> Inr (True, func (storageKind st) p w)))
      else None)"

definition visit ::
  "bool \<Rightarrow> ('layout, 'li, 'ci) PipelineManager \<Rightarrow> ProgramID
     \<Rightarrow> (ProgramTag \<Rightarrow> addr \<times> ('li, 'ci) PipelineObject \<Rightarrow> 'w \<Rightarrow> 'w) \<Rightarrow> 'w
     \<Rightarrow> assert_error + bool \<times> 'w" where
  "visit D3D_HAS_RAY_TRACING m program func w =
     (case processPipelineStorageEntry (graphics m) program func w of
        Some r \<Rightarrow> r
      | None \<Rightarrow>
          (case processPipelineStorageEntry (compute m) program func w of
             Some r \<Rightarrow> r
           | None \<Rightarrow>
               (case (if D3D_HAS_RAY_TRACING
                      then processPipelineStorageEntry (raytrace m) program func w
                      else None) of
                  Some r \<Rightarrow> r
                | None \<Rightarrow> Inr (False, w))))"

text \<open>
  The storage that owns an identifier's namespace, in the words of the spec: \<^verbatim>\<open>visit\<close>
  "dispatches to whichever kind-specific storage owns that identifier's namespace". There
  is none for an identifier of no namespace, nor for a raytrace identifier when
  \<^verbatim>\<open>D3D_HAS_RAY_TRACING\<close> is not set.
\<close>

definition ownerStorage ::
  "bool \<Rightarrow> ('layout, 'li, 'ci) PipelineManager \<Rightarrow> ProgramID
     \<Rightarrow> ('layout, 'li, 'ci) PipelineManagerStorage option" where
  "ownerStorage D3D_HAS_RAY_TRACING m program =
     (case programTag program of
        GraphicsProgramTag \<Rightarrow> Some (graphics m)
      | ComputeProgramTag \<Rightarrow> Some (compute m)
      | RaytraceProgramTag \<Rightarrow> (if D3D_HAS_RAY_TRACING then Some (raytrace m) else None)
      | NoProgramTag \<Rightarrow> None)"

text \<open>A manager as its constructor leaves it: each storage empty, of its own kind.\<close>

definition emptyStorage :: "ProgramTag \<Rightarrow> ('layout, 'li, 'ci) PipelineManagerStorage" where
  "emptyStorage kind = \<lparr>storageKind = kind, layouts = [], pipelines = []\<rparr>"

definition wellKinded :: "('layout, 'li, 'ci) PipelineManager \<Rightarrow> bool" where
  "wellKinded m =
     (storageKind (graphics m) = GraphicsProgramTag
      \<and> storageKind (compute m) = ComputeProgramTag
      \<and> storageKind (raytrace m) = RaytraceProgramTag)"

subsection \<open>Concrete inputs\<close>

text \<open>
  A device that supports 1, 2 and 4 samples without attachments, with eight render
  targets and four independent blend states.
\<close>

definition exampleConfig :: DriverConfig where
  "exampleConfig =
     \<lparr>MAX_SIMRT = 8, NumIndependentBlendParameters = 4, TARGET_ANDROID = False,
      framebufferNoAttachmentsSampleCounts = 7\<rparr>"

definition exampleBlend :: BlendParams where
  "exampleBlend =
     \<lparr>rs_blendEnable = False, rs_blendSrcFactor = 1, rs_blendDstFactor = 0, rs_blendOp = 0,
      rs_blendSeparateAlphaEnable = False, rs_blendSrcAlphaFactor = 1, rs_blendDstAlphaFactor = 0,
      rs_blendOpAlpha = 0\<rparr>"

text \<open>A static state that asks for every depth and stencil feature.\<close>

definition exampleStaticState :: StaticState where
  "exampleStaticState =
     \<lparr>rs_depthClipEnable = False, rs_forcedSamplerCount = 0, rs_alphaToCoverage = False,
      rs_depthTestEnable = True, rs_depthWriteEnable = True, rs_depthTestFunc = 3,
      rs_depthBoundsEnable = True, rs_stencilTestEnable = True,
      rs_stencilTestOpStencilFail = 0, rs_stencilTestOpPass = 0, rs_stencilTestOpDepthFail = 0,
      rs_stencilTestFunc = 7, rs_indenpendentBlendEnabled = False,
      rs_blendStates = (\<lambda>i. exampleBlend), rs_colorMask = 0xFFFFFFFF\<rparr>"

definition exampleAttachment :: VkPipelineColorBlendAttachmentState where
  "exampleAttachment =
     \<lparr>blendEnable = False, srcColorBlendFactor = 0, dstColorBlendFactor = 0, colorBlendOp = 0,
      srcAlphaBlendFactor = 0, dstAlphaBlendFactor = 0, alphaBlendOp = 0, colorWriteMask = 0\<rparr>"

definition exampleStencilOp :: VkStencilOpState where
  "exampleStencilOp =
     \<lparr>failOp = 0, passOp = 0, depthFailOp = 0, compareOp = 0, compareMask = 0, writeMask = 0,
      reference = 0\<rparr>"

text \<open>A scratch as its owner hands it over: zeroed, not allocated on the heap.\<close>

definition exampleScratch :: GraphicsPipelineCompileScratchData where
  "exampleScratch =
     \<lparr>gr_allocated = False, gr_vkCache = 0, gr_progIdx = 1, varIdx = 0, varTotal = 1,
      nativeRP = None,
      raster = \<lparr>depthClampEnable = False, rasterizerDiscardEnable = False, depthBiasEnable = False\<rparr>,
      multisample = \<lparr>rasterizationSamples = 0, sampleShadingEnable = False,
                      alphaToCoverageEnable = False, alphaToOneEnable = False\<rparr>,
      depthStencil = \<lparr>depthTestEnable = False, depthWriteEnable = False, depthCompareOp = 0,
                       depthBoundsTestEnable = False, stencilTestEnable = False,
                       stencil_front = exampleStencilOp, stencil_back = exampleStencilOp\<rparr>,
      attachmentStates = (\<lambda>i. exampleAttachment),
      colorBlendState = \<lparr>logicOpEnable = False, attachmentCount = 0\<rparr>,
      gpci = \<lparr>flags = 0, gpci_layout = 0, renderPass = 0, subpass = 0, basePipelineHandle = 0,
               basePipelineIndex = 0\<rparr>,
      parentPipe = None\<rparr>"

text \<open>
  A render pass class with colour targets 0 and 3 (mask \<^verbatim>\<open>0b1001\<close>), one sample each
  and no depth, and the creation info of a pipeline for it.
\<close>

definition exampleClass :: RenderPassClassIdentifier where
  "exampleClass = \<lparr>colorSamples = (\<lambda>i. 1), depthState = NO_DEPTH, colorTargetMask = 9\<rparr>"

definition exampleInfo :: GraphicsPipelineCreationInfo where
  "exampleInfo =
     \<lparr>info_scratch = exampleScratch, info_nativeRP = None, varDsc_subpass = 0,
      varDsc_rpClass = exampleClass, staticState = exampleStaticState, legacyPass = 5,
      fsOutputMask = 1, info_layoutHandle = 6, info_parentPipeline = None,
      info_dynStateMask = 0\<rparr>"

text \<open>
  The same with colour targets 0 and 1 (mask \<^verbatim>\<open>0b11\<close>), target 0 with four samples: slot
  1 is the resolve attachment of target 0.
\<close>

definition exampleResolveInfo :: GraphicsPipelineCreationInfo where
  "exampleResolveInfo =
     exampleInfo\<lparr>varDsc_rpClass :=
       \<lparr>colorSamples = (\<lambda>i. if i = 0 then 4 else 1), depthState = NO_DEPTH, colorTargetMask = 3\<rparr>\<rparr>"

text \<open>A driver that reports success and writes no handle, and one that fails.\<close>

definition nullOkDriver :: vkCreateGraphicsPipelines where
  "nullOkDriver cache ci = (VK_SUCCESS, VK_NULL_HANDLE)"

definition failingDriver :: vkCreateGraphicsPipelines where
  "failingDriver cache ci = (VK_ERROR_UNKNOWN, VK_NULL_HANDLE)"

definition exampleTiming :: CompileTiming where
  "exampleTiming =
     \<lparr>VULKAN_LOG_PIPELINE_ACTIVITY = 0, PIPELINE_COMPILATION_LONG_THRESHOLD = 1000,
      compilationTime = 10\<rparr>"

text \<open>
  The pipeline the constructor builds from \<^verbatim>\<open>exampleInfo\<close>, and a child built from the
  same info with the object at address 0 as its parent; a memory with a parent at
  address 0 whose handle is \<^verbatim>\<open>h\<close>; a driver that creates the pipeline 7.
\<close>

definition examplePipeline :: GraphicsPipeline where
  "examplePipeline = projr (GraphicsPipeline_ctor exampleConfig 0 0 exampleInfo)"

definition exampleChildInfo :: GraphicsPipelineCreationInfo where
  "exampleChildInfo = exampleInfo\<lparr>info_parentPipeline := Some 0\<rparr>"

definition exampleChild :: GraphicsPipeline where
  "exampleChild = projr (GraphicsPipeline_ctor exampleConfig 0 0 exampleChildInfo)"

definition parentAtZero :: "VulkanPipelineHandle \<Rightarrow> addr \<Rightarrow> GraphicsPipeline option" where
  "parentAtZero h a =
     (if a = 0 then Some \<lparr>layout = 0, handle = h, dynStateMask = 0, gr_compileScratch = None\<rparr>
      else None)"

definition sevenDriver :: vkCreateGraphicsPipelines where
  "sevenDriver cache ci = (VK_SUCCESS, 7)"

text \<open>
  A compute storage over layouts that are their own description (natural numbers, equal
  when they match): one layout, and one pipeline in slot 0; a manager that holds it; two
  operations on it, and the storage after them.
\<close>

definition examplePipelineObject :: "(nat, unit) PipelineObject" where
  "examplePipelineObject =
     \<lparr>ctor_program = makeID ComputeProgramTag 0, ctor_cache = 0, ctor_layout = 100,
      ctor_info = \<lparr>info_layout = 5\<rparr>\<rparr>"

definition exampleStorage :: "(nat, nat, unit) PipelineManagerStorage" where
  "exampleStorage =
     \<lparr>storageKind = ComputeProgramTag, layouts = [(100, 5)],
      pipelines = [Some (200, examplePipelineObject)]\<rparr>"

definition exampleManager :: "(nat, nat, unit) PipelineManager" where
  "exampleManager =
     \<lparr>graphics = emptyStorage GraphicsProgramTag, compute = exampleStorage,
      raytrace = emptyStorage RaytraceProgramTag, asyncCompileAllowed = False\<rparr>"

definition exampleOps :: "(nat, unit) storage_op list" where
  "exampleOps = [Add 101 201 (makeID ComputeProgramTag 1) 0 \<lparr>info_layout = 6\<rparr>, TakeOut 0]"

definition exampleStorage2 :: "(nat, nat, unit) PipelineManagerStorage" where
  "exampleStorage2 =
     \<lparr>storageKind = ComputeProgramTag, layouts = [(100, 5), (101, 6)],
      pipelines = [None,
        Some (201, \<lparr>ctor_program = makeID ComputeProgramTag 1, ctor_cache = 0, ctor_layout = 101,
                     ctor_info = \<lparr>info_layout = 6\<rparr>\<rparr>)]\<rparr>"

text \<open>
  A compute pipeline under asynchronous compilation, as its constructor leaves it at
  address 0 of a backend with nothing else, and a driver that creates the pipeline 9.
\<close>

definition examplePending :: ComputePipeline where
  "examplePending =
     \<lparr>layout = 0, handle = VK_NULL_HANDLE,
      compileScratch = Some \<lparr>allocated = True, vkModule = 1, vkLayout = 2, vkCache = 3, progIdx = 4\<rparr>\<rparr>"

definition exampleBackend :: Backend where
  "exampleBackend = \<lparr>pipes = (\<lambda>a. None)(0 := Some examplePending), compileQueue = [0]\<rparr>"

definition nineDriver :: vkCreateComputePipelines where
  "nineDriver scratch = (VK_SUCCESS, 9)"

text \<open>The creation info of \<^verbatim>\<open>exampleInfo\<close> with a forced sample count of four.\<close>

definition exampleForcedInfo :: GraphicsPipelineCreationInfo where
  "exampleForcedInfo = exampleInfo\<lparr>staticState := exampleStaticState\<lparr>rs_forcedSamplerCount := 4\<rparr>\<rparr>"

section \<open>Properties\<close>

subsection \<open>What the constructor of GraphicsPipeline returns\<close>

lemma fillScratch_Inr:
  "GraphicsPipeline_fillScratch cfg cache info = Inr csd \<Longrightarrow>
     raster csd = ctor_raster cfg info \<and> depthStencil csd = ctor_depthStencil info
     \<and> ctor_multisample cfg info = Inr (multisample csd)
     \<and> attachmentCount (colorBlendState csd) = fst (ctor_attachments cfg info)
     \<and> attachmentStates csd = snd (snd (ctor_attachments cfg info))
     \<and> gpci csd = ctor_gpci info \<and> parentPipe csd = info_parentPipeline info
     \<and> nativeRP csd = map_option addPipelineCompileRef (info_nativeRP info)
     \<and> gr_vkCache csd = cache \<and> gr_allocated csd = gr_allocated (info_scratch info)"
  unfolding GraphicsPipeline_fillScratch_def
  by (cases "ctor_multisample cfg info") auto

lemma fillScratch_Inl:
  "GraphicsPipeline_fillScratch cfg cache info = Inl e \<longleftrightarrow> ctor_multisample cfg info = Inl e"
  unfolding GraphicsPipeline_fillScratch_def
  by (cases "ctor_multisample cfg info") auto

lemma ctor_Inr:
  "GraphicsPipeline_ctor cfg cache l info = Inr this \<longleftrightarrow>
     (\<exists>csd. GraphicsPipeline_fillScratch cfg cache info = Inr csd
        \<and> this = \<lparr>layout = l, handle = VK_NULL_HANDLE, dynStateMask = info_dynStateMask info,
                  gr_compileScratch = Some csd\<rparr>)"
  unfolding GraphicsPipeline_ctor_def
  by (cases "GraphicsPipeline_fillScratch cfg cache info") auto

lemma example_multisample:
  "ctor_multisample exampleConfig exampleInfo =
     Inr \<lparr>rasterizationSamples = 1, sampleShadingEnable = False, alphaToCoverageEnable = False,
          alphaToOneEnable = False\<rparr>"
  by (simp add: ctor_multisample_def ctor_rasterizationSamples_def exampleInfo_def
      exampleStaticState_def resolved_sampleCount_def exampleClass_def Let_def)

lemma example_fillScratch:
  "\<exists>csd. GraphicsPipeline_fillScratch exampleConfig 0 exampleInfo = Inr csd"
  by (simp add: GraphicsPipeline_fillScratch_def example_multisample)

lemma ctor_Inl_of_samples:
  assumes "ctor_rasterizationSamples cfg info = Inl e"
  shows "GraphicsPipeline_ctor cfg cache l info = Inl e"
proof -
  have "ctor_multisample cfg info = Inl e" using assms by (simp add: ctor_multisample_def)
  then have "GraphicsPipeline_fillScratch cfg cache info = Inl e" by (simp add: fillScratch_Inl)
  then show ?thesis by (simp add: GraphicsPipeline_ctor_def)
qed

subsection \<open>checkSampleCount\<close>

lemma sampleCountSwitch_id: "sampleCountSwitch count = count"
  by (simp add: sampleCountSwitch_def VK_SAMPLE_COUNT_2_BIT_def VK_SAMPLE_COUNT_4_BIT_def
      VK_SAMPLE_COUNT_8_BIT_def VK_SAMPLE_COUNT_16_BIT_def VK_SAMPLE_COUNT_32_BIT_def
      VK_SAMPLE_COUNT_64_BIT_def)

text \<open>
  Claim C8. With a forced sample count greater than one, \<^verbatim>\<open>checkSampleCount\<close> fails an
  assertion exactly when the translated sample count bit is not in the device's mask of
  sample counts without attachments, or there is a depth attachment, or the colour target
  mask is not zero: the first assertion in the first case, the second in the others.
  Only when neither holds does it return, and then the translated bit: there is no
  fallback to another count. The construction of a GraphicsPipeline that requests this
  forced sample count fails with the same assertion.
\<close>

theorem checkSampleCount_forced_asserts:
  assumes "1 < count"
  shows "(isl (checkSampleCount caps count colorMask hasDepth)
            \<longleftrightarrow> (caps AND sampleCountSwitch count = 0 \<or> hasDepth \<noteq> 0 \<or> colorMask \<noteq> 0))
       \<and> (caps AND sampleCountSwitch count = 0
            \<longrightarrow> checkSampleCount caps count colorMask hasDepth = Inl SampleCountNotSupported)
       \<and> (caps AND sampleCountSwitch count \<noteq> 0 \<and> (hasDepth \<noteq> 0 \<or> colorMask \<noteq> 0)
            \<longrightarrow> checkSampleCount caps count colorMask hasDepth
                  = Inl ForcedMultisamplingWithAttachments)
       \<and> (caps AND sampleCountSwitch count \<noteq> 0 \<and> hasDepth = 0 \<and> colorMask = 0
            \<longrightarrow> checkSampleCount caps count colorMask hasDepth = Inr (sampleCountSwitch count))
       \<and> (rs_forcedSamplerCount (staticState info) = count
            \<and> caps = framebufferNoAttachmentsSampleCounts cfg
            \<and> colorMask = ucast (resolved_rpColorTargetMask info)
            \<and> hasDepth = (if resolved_hasDepth info then 1 else 0)
            \<longrightarrow> (\<forall>e. checkSampleCount caps count colorMask hasDepth = Inl e
                     \<longrightarrow> GraphicsPipeline_ctor cfg cache l info = Inl e))"
proof -
  have a: "(isl (checkSampleCount caps count colorMask hasDepth)
            \<longleftrightarrow> (caps AND sampleCountSwitch count = 0 \<or> hasDepth \<noteq> 0 \<or> colorMask \<noteq> 0))
       \<and> (caps AND sampleCountSwitch count = 0
            \<longrightarrow> checkSampleCount caps count colorMask hasDepth = Inl SampleCountNotSupported)
       \<and> (caps AND sampleCountSwitch count \<noteq> 0 \<and> (hasDepth \<noteq> 0 \<or> colorMask \<noteq> 0)
            \<longrightarrow> checkSampleCount caps count colorMask hasDepth
                  = Inl ForcedMultisamplingWithAttachments)
       \<and> (caps AND sampleCountSwitch count \<noteq> 0 \<and> hasDepth = 0 \<and> colorMask = 0
            \<longrightarrow> checkSampleCount caps count colorMask hasDepth = Inr (sampleCountSwitch count))"
    using assms by (auto simp: checkSampleCount_def Let_def)
  have nz: "count \<noteq> 0" using assms by auto
  have b: "GraphicsPipeline_ctor cfg cache l info = Inl e"
    if "rs_forcedSamplerCount (staticState info) = count"
      and "caps = framebufferNoAttachmentsSampleCounts cfg"
      and "colorMask = ucast (resolved_rpColorTargetMask info)"
      and "hasDepth = (if resolved_hasDepth info then 1 else 0)"
      and "checkSampleCount caps count colorMask hasDepth = Inl e" for e
  proof -
    have "ctor_rasterizationSamples cfg info = Inl e"
      using that nz by (simp add: ctor_rasterizationSamples_def)
    then show ?thesis by (rule ctor_Inl_of_samples)
  qed
  show ?thesis using a b by blast
qed

theorem checkSampleCount_forced_asserts_witness:
  "(1 :: 32 word) < 4
   \<and> checkSampleCount 1 4 0 0 = Inl SampleCountNotSupported
   \<and> checkSampleCount 7 4 1 0 = Inl ForcedMultisamplingWithAttachments
   \<and> checkSampleCount 7 4 0 1 = Inl ForcedMultisamplingWithAttachments
   \<and> checkSampleCount 7 4 0 0 = Inr 4
   \<and> rs_forcedSamplerCount (staticState exampleForcedInfo) = 4
   \<and> resolved_rpColorTargetMask exampleForcedInfo = 9
   \<and> GraphicsPipeline_ctor exampleConfig 0 0 exampleForcedInfo
       = Inl ForcedMultisamplingWithAttachments"
proof -
  have h: "(1 :: 32 word) < 4" by simp
  have s: "sampleCountSwitch 4 = 4" by (simp add: sampleCountSwitch_id)
  have a: "(1 :: 32 word) AND 4 = 0" "(7 :: 32 word) AND 4 \<noteq> 0" by simp_all
  have f: "rs_forcedSamplerCount (staticState exampleForcedInfo) = 4"
    and m: "resolved_rpColorTargetMask exampleForcedInfo = 9"
    and d: "\<not> resolved_hasDepth exampleForcedInfo"
    and c: "framebufferNoAttachmentsSampleCounts exampleConfig = 7"
    by (simp_all add: exampleForcedInfo_def exampleInfo_def exampleStaticState_def exampleClass_def
        resolved_rpColorTargetMask_def resolved_hasDepth_def exampleConfig_def)
  have 1: "checkSampleCount 1 4 0 0 = Inl SampleCountNotSupported"
    "checkSampleCount 7 4 1 0 = Inl ForcedMultisamplingWithAttachments"
    "checkSampleCount 7 4 0 1 = Inl ForcedMultisamplingWithAttachments"
    "checkSampleCount 7 4 0 0 = Inr 4"
    using a checkSampleCount_forced_asserts [OF h, of 1 0 0] checkSampleCount_forced_asserts [OF h, of 7 0 1] checkSampleCount_forced_asserts [OF h, of 7 1 0] checkSampleCount_forced_asserts [OF h, of 7 0 0]
    by (simp_all add: s)
  have 2: "checkSampleCount 7 4 9 0 = Inl ForcedMultisamplingWithAttachments"
    using a checkSampleCount_forced_asserts [OF h, of 7 9 0] by (simp add: s)
  have "GraphicsPipeline_ctor exampleConfig 0 0 exampleForcedInfo
          = Inl ForcedMultisamplingWithAttachments"
    using checkSampleCount_forced_asserts [OF h, where caps = 7 and colorMask = 9 and hasDepth = 0 and info = exampleForcedInfo
        and cfg = exampleConfig and cache = 0 and l = 0] f m d c 2
    by simp
  then show ?thesis using h 1 f m by simp
qed

text \<open>
  Claim C10. With a forced sample count of at most one, \<^verbatim>\<open>checkSampleCount\<close> returns the
  one-sample bit and fails no assertion, whatever the device supports and whatever the
  attachments are; so the constructor, given a forced sample count of one, takes one
  sample from it with no assertion of \<^verbatim>\<open>checkSampleCount\<close>.
\<close>

theorem checkSampleCount_at_most_one:
  "(count \<le> 1 \<longrightarrow> checkSampleCount caps count colorMask hasDepth = Inr VK_SAMPLE_COUNT_1_BIT)
   \<and> (rs_forcedSamplerCount (staticState info) = 1
        \<longrightarrow> ctor_rasterizationSamples cfg info = Inr VK_SAMPLE_COUNT_1_BIT)"
  by (simp add: checkSampleCount_def ctor_rasterizationSamples_def)

theorem checkSampleCount_at_most_one_witness:
  "(1 :: 32 word) \<le> 1
   \<and> checkSampleCount 0 1 255 1 = Inr VK_SAMPLE_COUNT_1_BIT
   \<and> rs_forcedSamplerCount (staticState (exampleInfo\<lparr>staticState :=
         exampleStaticState\<lparr>rs_forcedSamplerCount := 1\<rparr>\<rparr>)) = 1
   \<and> resolved_rpColorTargetMask (exampleInfo\<lparr>staticState :=
         exampleStaticState\<lparr>rs_forcedSamplerCount := 1\<rparr>\<rparr>) = 9
   \<and> ctor_rasterizationSamples (exampleConfig\<lparr>framebufferNoAttachmentsSampleCounts := 0\<rparr>)
        (exampleInfo\<lparr>staticState := exampleStaticState\<lparr>rs_forcedSamplerCount := 1\<rparr>\<rparr>)
       = Inr VK_SAMPLE_COUNT_1_BIT"
proof -
  have m: "resolved_rpColorTargetMask (exampleInfo\<lparr>staticState :=
         exampleStaticState\<lparr>rs_forcedSamplerCount := 1\<rparr>\<rparr>) = 9"
    by (simp add: resolved_rpColorTargetMask_def exampleInfo_def exampleClass_def)
  show ?thesis
    using m checkSampleCount_at_most_one [of 1 0 255 1
        "exampleInfo\<lparr>staticState := exampleStaticState\<lparr>rs_forcedSamplerCount := 1\<rparr>\<rparr>"
        "exampleConfig\<lparr>framebufferNoAttachmentsSampleCounts := 0\<rparr>"]
    by simp
qed

subsection \<open>The constructor of GraphicsPipeline\<close>

text \<open>
  Claim C5. When the resolved render target configuration has no depth attachment, the
  scratch the constructor leaves has the depth test, the depth write, the depth bounds
  test, the stencil test and the depth bias disabled (and the depth clamp with them),
  whatever the static render state asked for.
\<close>

theorem no_depth_disables_depth_stencil:
  assumes "GraphicsPipeline_fillScratch cfg cache info = Inr csd"
    and "\<not> resolved_hasDepth info"
  shows "\<not> depthTestEnable (depthStencil csd) \<and> \<not> depthWriteEnable (depthStencil csd)
    \<and> \<not> depthBoundsTestEnable (depthStencil csd) \<and> \<not> stencilTestEnable (depthStencil csd)
    \<and> \<not> depthBiasEnable (raster csd) \<and> \<not> depthClampEnable (raster csd)"
  using fillScratch_Inr [OF assms(1)] assms(2)
  by (simp add: ctor_depthStencil_def ctor_raster_def Let_def)

theorem no_depth_disables_depth_stencil_witness:
  "\<not> resolved_hasDepth exampleInfo
   \<and> rs_depthTestEnable (staticState exampleInfo) \<and> rs_depthWriteEnable (staticState exampleInfo)
   \<and> rs_depthBoundsEnable (staticState exampleInfo) \<and> rs_stencilTestEnable (staticState exampleInfo)
   \<and> (\<exists>csd. GraphicsPipeline_fillScratch exampleConfig 0 exampleInfo = Inr csd
        \<and> \<not> depthTestEnable (depthStencil csd) \<and> \<not> depthWriteEnable (depthStencil csd)
        \<and> \<not> depthBoundsTestEnable (depthStencil csd) \<and> \<not> stencilTestEnable (depthStencil csd)
        \<and> \<not> depthBiasEnable (raster csd))"
proof -
  have h: "\<not> resolved_hasDepth exampleInfo"
    by (simp add: resolved_hasDepth_def exampleInfo_def exampleClass_def)
  obtain csd where c: "GraphicsPipeline_fillScratch exampleConfig 0 exampleInfo = Inr csd"
    using example_fillScratch by blast
  have s: "rs_depthTestEnable (staticState exampleInfo) \<and> rs_depthWriteEnable (staticState exampleInfo)
   \<and> rs_depthBoundsEnable (staticState exampleInfo) \<and> rs_stencilTestEnable (staticState exampleInfo)"
    by (simp add: exampleInfo_def exampleStaticState_def)
  show ?thesis using h s c no_depth_disables_depth_stencil [OF c h] by blast
qed

subsection \<open>The colour attachments\<close>

lemma attachmentsLoop_zero: "attachmentsLoop cfg info i 0 x = x"
  by (cases x) (simp add: attachmentsLoop.simps)

lemma attachmentsLoop_end: "MAX_SIMRT cfg \<le> i \<Longrightarrow> attachmentsLoop cfg info i rpMask x = x"
  by (cases x) (simp add: attachmentsLoop.simps)

lemma attachmentsLoop_step:
  "i < MAX_SIMRT cfg \<Longrightarrow> rpMask \<noteq> 0 \<Longrightarrow>
   attachmentsLoop cfg info i rpMask (cnt, sw, st) =
     attachmentsLoop cfg info (Suc i) (drop_bit 1 rpMask)
       (if isResolveAttachment info i then (cnt, sw, st)
        else (Suc cnt, drop_bit 1 sw, st(cnt := attachmentStateFor cfg info i cnt sw rpMask)))"
  by (subst attachmentsLoop.simps) simp

lemma attachmentsLoop_count:
  fixes rpMask :: "8 word"
  assumes "bit rpMask k" and "\<forall>j>k. \<not> bit rpMask j"
  shows "fst (attachmentsLoop cfg info i rpMask (cnt, sw, st)) =
           cnt + length (filter (\<lambda>j. \<not> isResolveAttachment info j)
                           [i ..< min (MAX_SIMRT cfg) (i + k + 1)])"
  using assms
proof (induction k arbitrary: i rpMask cnt sw st)
  case 0
  have nz: "rpMask \<noteq> 0" using 0(1) by auto
  have z: "drop_bit (Suc 0) rpMask = 0"
    by (rule bit_word_eqI) (use 0(2) in \<open>simp add: bit_drop_bit_eq\<close>)
  show ?case
  proof (cases "i < MAX_SIMRT cfg")
    case True
    then have m: "min (MAX_SIMRT cfg) (i + 0 + 1) = Suc i" by simp
    show ?thesis
      using True nz by (simp add: attachmentsLoop_step z attachmentsLoop_zero m)
  next
    case False
    then show ?thesis by (simp add: attachmentsLoop_end)
  qed
next
  case (Suc k)
  have nz: "rpMask \<noteq> 0" using Suc.prems(1) by auto
  have b: "bit (drop_bit (Suc 0) rpMask) k" using Suc.prems(1) by (simp add: bit_drop_bit_eq)
  have h: "\<forall>j>k. \<not> bit (drop_bit (Suc 0) rpMask) j" using Suc.prems(2) by (simp add: bit_drop_bit_eq)
  show ?case
  proof (cases "i < MAX_SIMRT cfg")
    case True
    have l: "[i ..< min (MAX_SIMRT cfg) (Suc (Suc (i + k)))]
              = i # [Suc i ..< min (MAX_SIMRT cfg) (Suc (Suc (i + k)))]"
      using True by (simp add: upt_conv_Cons)
    show ?thesis
      using True nz Suc.IH [OF b h, of "Suc i"]
      by (simp add: attachmentsLoop_step l)
  next
    case False
    then show ?thesis by (simp add: attachmentsLoop_end)
  qed
qed

lemma ctor_attachments_count:
  assumes "bit (ucast (resolved_rpColorTargetMask info) :: 8 word) k"
    and "\<forall>j>k. \<not> bit (ucast (resolved_rpColorTargetMask info) :: 8 word) j"
  shows "fst (ctor_attachments cfg info) =
           length (filter (\<lambda>j. \<not> isResolveAttachment info j) [0 ..< min (MAX_SIMRT cfg) (k + 1)])"
proof -
  have "resolved_rpColorTargetMask info \<noteq> 0" using assms(1) by auto
  then show ?thesis
    using attachmentsLoop_count [OF assms, of cfg info 0 0]
    by (simp add: ctor_attachments_def)
qed

lemma exampleResolve_multisample:
  "ctor_multisample exampleConfig exampleResolveInfo =
     Inr \<lparr>rasterizationSamples = 4, sampleShadingEnable = False, alphaToCoverageEnable = False,
          alphaToOneEnable = False\<rparr>"
  by (simp add: ctor_multisample_def ctor_rasterizationSamples_def exampleInfo_def exampleResolveInfo_def
      exampleStaticState_def resolved_sampleCount_def exampleClass_def Let_def)

lemma exampleResolve_fillScratch:
  "\<exists>csd. GraphicsPipeline_fillScratch exampleConfig 0 exampleResolveInfo = Inr csd"
  by (simp add: GraphicsPipeline_fillScratch_def exampleResolve_multisample)

lemma low_byte_3: "bit (3::8 word) 1 \<and> (\<forall>j>1. \<not> bit (3::8 word) j)"
proof -
  have t: "take_bit 2 (3::8 word) = 3" by simp
  have "\<not> bit (3::8 word) j" if "j > 1" for j
    using that bit_take_bit_iff [of 2 "3::8 word" j] by (simp add: t)
  then show ?thesis by simp
qed

lemma low_byte_9: "bit (9::8 word) 3 \<and> (\<forall>j>3. \<not> bit (9::8 word) j)"
proof -
  have t: "take_bit 4 (9::8 word) = 9" by simp
  have "\<not> bit (9::8 word) j" if "j > 3" for j
    using that bit_take_bit_iff [of 4 "9::8 word" j] by (simp add: t)
  then show ?thesis by simp
qed

text \<open>
  Claim C4, as amended. The loop reads the colour target mask as a \<^verbatim>\<open>uint8_t\<close>. When
  that byte is not zero and \<^verbatim>\<open>k\<close> is the index of its highest set bit, the attachment
  count of the scratch is the number of slots below \<^verbatim>\<open>min(MAX_SIMRT, k + 1)\<close> that are
  not resolve attachments (slot \<^verbatim>\<open>i > 0\<close> is one when the render pass is not native and
  \<^verbatim>\<open>colorSamples[i - 1] > 1\<close>). With a native render pass, or with no multisampled colour
  target below \<^verbatim>\<open>k\<close>, and \<^verbatim>\<open>k < MAX_SIMRT\<close>, the count is \<^verbatim>\<open>k + 1\<close>: the mask
  \<^verbatim>\<open>0b1001\<close> gives 4 attachments, not 2.
\<close>

theorem attachmentCount_highest_bit:
  assumes "GraphicsPipeline_fillScratch cfg cache info = Inr csd"
    and "bit (ucast (resolved_rpColorTargetMask info) :: 8 word) k"
    and "\<forall>j>k. \<not> bit (ucast (resolved_rpColorTargetMask info) :: 8 word) j"
  shows "attachmentCount (colorBlendState csd) =
           length (filter (\<lambda>j. \<not> isResolveAttachment info j) [0 ..< min (MAX_SIMRT cfg) (k + 1)])
       \<and> (k < MAX_SIMRT cfg
            \<and> (info_nativeRP info \<noteq> None \<or> (\<forall>j<k. colorSamples (varDsc_rpClass info) j \<le> 1))
            \<longrightarrow> attachmentCount (colorBlendState csd) = k + 1)"
proof -
  have c: "attachmentCount (colorBlendState csd) =
           length (filter (\<lambda>j. \<not> isResolveAttachment info j) [0 ..< min (MAX_SIMRT cfg) (k + 1)])"
    using fillScratch_Inr [OF assms(1)] ctor_attachments_count [OF assms(2,3)] by simp
  have "attachmentCount (colorBlendState csd) = k + 1"
    if "k < MAX_SIMRT cfg"
      and "info_nativeRP info \<noteq> None \<or> (\<forall>j<k. colorSamples (varDsc_rpClass info) j \<le> 1)"
  proof -
    have "\<forall>j\<in>set [0 ..< k + 1]. \<not> isResolveAttachment info j"
      using that(2) by (auto simp: isResolveAttachment_def not_less)
    then have "filter (\<lambda>j. \<not> isResolveAttachment info j) [0 ..< k + 1] = [0 ..< k + 1]"
      by (simp only: filter_True)
    moreover have "min (MAX_SIMRT cfg) (k + 1) = k + 1" using that(1) by simp
    ultimately show ?thesis using c by simp
  qed
  with c show ?thesis by blast
qed

theorem attachmentCount_highest_bit_witness:
  "resolved_rpColorTargetMask exampleInfo = 9
   \<and> \<not> isl (GraphicsPipeline_fillScratch exampleConfig 0 exampleInfo)
   \<and> attachmentCount (colorBlendState (projr (GraphicsPipeline_fillScratch exampleConfig 0 exampleInfo))) = 4"
proof -
  obtain csd where c: "GraphicsPipeline_fillScratch exampleConfig 0 exampleInfo = Inr csd"
    using example_fillScratch by blast
  have m: "resolved_rpColorTargetMask exampleInfo = 9"
    by (simp add: resolved_rpColorTargetMask_def exampleInfo_def exampleClass_def)
  have u: "(ucast (resolved_rpColorTargetMask exampleInfo) :: 8 word) = 9" by (simp add: m)
  have b: "bit (ucast (resolved_rpColorTargetMask exampleInfo) :: 8 word) 3"
    and h: "\<forall>j>3. \<not> bit (ucast (resolved_rpColorTargetMask exampleInfo) :: 8 word) j"
    unfolding u using low_byte_9 by blast+
  have s: "\<forall>j<3. colorSamples (varDsc_rpClass exampleInfo) j \<le> 1"
    by (simp add: exampleInfo_def exampleClass_def)
  have k: "3 < MAX_SIMRT exampleConfig" by (simp add: exampleConfig_def)
  show ?thesis
    using attachmentCount_highest_bit [OF c b h] s k m c by simp
qed

text \<open>
  The claim as it is written fails on a render pass class with the colour targets 0 and
  1 where target 0 has four samples: the highest set bit of the mask \<^verbatim>\<open>0b11\<close> is bit 1,
  slot 1 is skipped as the resolve attachment of target 0, and the count is 1, not 2.
\<close>

theorem attachmentCount_counterexample:
  "resolved_rpColorTargetMask exampleResolveInfo = 3
   \<and> \<not> isl (GraphicsPipeline_fillScratch exampleConfig 0 exampleResolveInfo)
   \<and> attachmentCount (colorBlendState (projr (GraphicsPipeline_fillScratch exampleConfig 0 exampleResolveInfo))) = 1"
proof -
  obtain csd where c: "GraphicsPipeline_fillScratch exampleConfig 0 exampleResolveInfo = Inr csd"
    using exampleResolve_fillScratch by blast
  have m: "resolved_rpColorTargetMask exampleResolveInfo = 3"
    by (simp add: resolved_rpColorTargetMask_def exampleResolveInfo_def exampleInfo_def)
  have u: "(ucast (resolved_rpColorTargetMask exampleResolveInfo) :: 8 word) = 3" by (simp add: m)
  have b: "bit (ucast (resolved_rpColorTargetMask exampleResolveInfo) :: 8 word) 1"
    and h: "\<forall>j>1. \<not> bit (ucast (resolved_rpColorTargetMask exampleResolveInfo) :: 8 word) j"
    unfolding u using low_byte_3 by blast+
  have r: "\<not> isResolveAttachment exampleResolveInfo 0" "isResolveAttachment exampleResolveInfo (Suc 0)"
    by (simp_all add: isResolveAttachment_def exampleResolveInfo_def exampleInfo_def)
  have l: "[0 ..< min (MAX_SIMRT exampleConfig) (Suc (Suc 0))] = [0, Suc 0]"
    by (simp add: exampleConfig_def upt_rec)
  have "attachmentCount (colorBlendState csd) = 1"
    using fillScratch_Inr [OF c] ctor_attachments_count [OF b h, of exampleConfig] r
    by (simp add: l)
  then show ?thesis using m c by simp
qed

subsection \<open>Compilation of a GraphicsPipeline\<close>

lemma exampleChild_multisample:
  "ctor_multisample exampleConfig exampleChildInfo =
     Inr \<lparr>rasterizationSamples = 1, sampleShadingEnable = False, alphaToCoverageEnable = False,
          alphaToOneEnable = False\<rparr>"
  by (simp add: ctor_multisample_def ctor_rasterizationSamples_def exampleInfo_def exampleChildInfo_def
      exampleStaticState_def resolved_sampleCount_def exampleClass_def Let_def)

lemma exampleChild_fillScratch:
  "\<exists>csd. GraphicsPipeline_fillScratch exampleConfig 0 exampleChildInfo = Inr csd"
  by (simp add: GraphicsPipeline_fillScratch_def exampleChild_multisample)

lemma examplePipeline_ctor:
  "GraphicsPipeline_ctor exampleConfig 0 0 exampleInfo = Inr examplePipeline"
proof -
  obtain csd where "GraphicsPipeline_fillScratch exampleConfig 0 exampleInfo = Inr csd"
    using example_fillScratch by blast
  then have "\<exists>p. GraphicsPipeline_ctor exampleConfig 0 0 exampleInfo = Inr p"
    by (simp add: ctor_Inr)
  then show ?thesis by (auto simp: examplePipeline_def)
qed

lemma exampleChild_ctor:
  "GraphicsPipeline_ctor exampleConfig 0 0 exampleChildInfo = Inr exampleChild"
proof -
  obtain csd where "GraphicsPipeline_fillScratch exampleConfig 0 exampleChildInfo = Inr csd"
    using exampleChild_fillScratch by blast
  then have "\<exists>p. GraphicsPipeline_ctor exampleConfig 0 0 exampleChildInfo = Inr p"
    by (simp add: ctor_Inr)
  then show ?thesis by (auto simp: exampleChild_def)
qed

lemma ctor_scratch:
  assumes "GraphicsPipeline_ctor cfg cache l info = Inr this"
  shows "\<exists>csd. gr_compileScratch this = Some csd \<and> handle this = VK_NULL_HANDLE
           \<and> GraphicsPipeline_fillScratch cfg cache info = Inr csd"
  using assms by (auto simp: ctor_Inr)

lemma parentBlock_cases:
  assumes "parentPipe csd = Some pp" and "mem pp = Some parent"
  shows "createPipelineObject_parentBlock mem csd =
           Returns (if \<not> is_null (getCompiledHandle parent)
                    then csd\<lparr>gpci := (gpci csd)
                           \<lparr>flags := flags (gpci csd) OR VK_PIPELINE_CREATE_DERIVATIVE_BIT,
                            basePipelineIndex := - 1,
                            basePipelineHandle := getHandle parent\<rparr>\<rparr>
                    else csd)"
  using assms by (simp add: createPipelineObject_parentBlock_def)

lemma createPipelineObject_after_parentBlock:
  assumes "gr_compileScratch this = Some csd"
    and "createPipelineObject_parentBlock mem csd = Returns csd'"
  shows "GraphicsPipeline_createPipelineObject native mem this =
           VULKAN_EXIT_ON_FAIL (fst (native (gr_vkCache csd') (gpci csd')))
             (Returns (snd (native (gr_vkCache csd') (gpci csd')),
                       this\<lparr>gr_compileScratch := Some csd'\<rparr>))"
  using assms by (simp add: GraphicsPipeline_createPipelineObject_def split_beta)

lemma or_derivative_bit: "(x OR VK_PIPELINE_CREATE_DERIVATIVE_BIT) AND VK_PIPELINE_CREATE_DERIVATIVE_BIT
     = VK_PIPELINE_CREATE_DERIVATIVE_BIT"
  by (rule bit_word_eqI) (auto simp: bit_and_iff bit_or_iff)

lemma scratch_update_same:
  "gr_compileScratch (this :: GraphicsPipeline) = Some csd \<Longrightarrow> this\<lparr>gr_compileScratch := Some csd\<rparr> = this"
  by (cases this) simp

lemma compile_after_createPipelineObject:
  assumes "GraphicsPipeline_createPipelineObject native mem this = Returns (retHandle, this1)"
    and "gr_compileScratch this1 = Some csd"
  shows "GraphicsPipeline_compile native t mem this =
     Returns ((if gr_allocated csd then setCompiledHandle retHandle this1
               else setHandle retHandle this1)\<lparr>gr_compileScratch := None\<rparr>,
              map_option releasePipelineCompileRef (nativeRP csd),
              (if is_null retHandle then [Logerr_not_compiled_but_result_was_ok]
               else if logsLongCompile t (gr_allocated csd) then [Debug_compiled_in]
               else []))"
  using assms by (simp add: GraphicsPipeline_compile_def Let_def)

text \<open>
  Claim C6. A pipeline with a designated parent: when the parent's compiled handle is not
  null at the moment \<^verbatim>\<open>createPipelineObject\<close> runs, the create-info handed to the native
  call has the derivative flag added to its flags, \<^verbatim>\<open>basePipelineIndex = -1\<close> and the
  parent's handle as \<^verbatim>\<open>basePipelineHandle\<close>, and nothing else of the scratch changes. When
  the parent's compiled handle is null the scratch is left as it was (for a scratch that
  the constructor filled: flags \<^verbatim>\<open>ALLOW_DERIVATIVES\<close> without the derivative bit and a null
  base handle). In both cases the native call is made, and only its own failure ends in the
  fatal exit.
\<close>

theorem derivative_of_parent:
  assumes "gr_compileScratch this = Some csd" and "parentPipe csd = Some pp"
    and "mem pp = Some parent"
  shows "\<exists>csd'. createPipelineObject_parentBlock mem csd = Returns csd'
     \<and> GraphicsPipeline_createPipelineObject native mem this =
           VULKAN_EXIT_ON_FAIL (fst (native (gr_vkCache csd) (gpci csd')))
             (Returns (snd (native (gr_vkCache csd) (gpci csd')),
                       this\<lparr>gr_compileScratch := Some csd'\<rparr>))
     \<and> (\<not> is_null (getCompiledHandle parent) \<longrightarrow>
          csd' = csd\<lparr>gpci := gpci csd'\<rparr>
          \<and> gpci csd' = (gpci csd)\<lparr>flags := flags (gpci csd) OR VK_PIPELINE_CREATE_DERIVATIVE_BIT,
                                    basePipelineIndex := - 1,
                                    basePipelineHandle := getHandle parent\<rparr>
          \<and> flags (gpci csd') AND VK_PIPELINE_CREATE_DERIVATIVE_BIT = VK_PIPELINE_CREATE_DERIVATIVE_BIT)
     \<and> (is_null (getCompiledHandle parent) \<longrightarrow> csd' = csd)
     \<and> (\<forall>cfg cache l info. GraphicsPipeline_ctor cfg cache l info = Inr this \<longrightarrow>
           flags (gpci csd) = VK_PIPELINE_CREATE_ALLOW_DERIVATIVES_BIT
           \<and> flags (gpci csd) AND VK_PIPELINE_CREATE_DERIVATIVE_BIT = 0
           \<and> basePipelineHandle (gpci csd) = VK_NULL_HANDLE)"
proof -
  define csd' where "csd' = (if \<not> is_null (getCompiledHandle parent)
                    then csd\<lparr>gpci := (gpci csd)
                           \<lparr>flags := flags (gpci csd) OR VK_PIPELINE_CREATE_DERIVATIVE_BIT,
                            basePipelineIndex := - 1,
                            basePipelineHandle := getHandle parent\<rparr>\<rparr>
                    else csd)"
  have p: "createPipelineObject_parentBlock mem csd = Returns csd'"
    using parentBlock_cases [of csd pp mem parent] assms(2,3) by (simp add: csd'_def)
  have c: "gr_vkCache csd' = gr_vkCache csd" by (simp add: csd'_def)
  have o: "GraphicsPipeline_createPipelineObject native mem this =
           VULKAN_EXIT_ON_FAIL (fst (native (gr_vkCache csd) (gpci csd')))
             (Returns (snd (native (gr_vkCache csd) (gpci csd')),
                       this\<lparr>gr_compileScratch := Some csd'\<rparr>))"
    using createPipelineObject_after_parentBlock [where native = native, OF assms(1) p]
    by (simp add: c)
  have d: "\<not> is_null (getCompiledHandle parent) \<longrightarrow>
          csd' = csd\<lparr>gpci := gpci csd'\<rparr>
          \<and> gpci csd' = (gpci csd)\<lparr>flags := flags (gpci csd) OR VK_PIPELINE_CREATE_DERIVATIVE_BIT,
                                    basePipelineIndex := - 1,
                                    basePipelineHandle := getHandle parent\<rparr>
          \<and> flags (gpci csd') AND VK_PIPELINE_CREATE_DERIVATIVE_BIT = VK_PIPELINE_CREATE_DERIVATIVE_BIT"
    by (simp add: csd'_def or_derivative_bit)
  have n: "is_null (getCompiledHandle parent) \<longrightarrow> csd' = csd" by (simp add: csd'_def)
  have f: "flags (gpci csd) = VK_PIPELINE_CREATE_ALLOW_DERIVATIVES_BIT
           \<and> flags (gpci csd) AND VK_PIPELINE_CREATE_DERIVATIVE_BIT = 0
           \<and> basePipelineHandle (gpci csd) = VK_NULL_HANDLE"
    if ct: "GraphicsPipeline_ctor cfg cache l info = Inr this" for cfg cache l info
  proof -
    obtain c0 where "gr_compileScratch this = Some c0"
      and "GraphicsPipeline_fillScratch cfg cache info = Inr c0"
      using ctor_scratch [OF ct] by blast
    then have "gpci csd = ctor_gpci info" using assms(1) fillScratch_Inr by auto
    then show ?thesis
      by (simp add: ctor_gpci_def VK_PIPELINE_CREATE_ALLOW_DERIVATIVES_BIT_def
          VK_PIPELINE_CREATE_DERIVATIVE_BIT_def)
  qed
  show ?thesis using p o d n f by blast
qed


theorem derivative_of_parent_witness:
  "GraphicsPipeline_ctor exampleConfig 0 0 exampleChildInfo = Inr exampleChild
   \<and> info_parentPipeline exampleChildInfo = Some 0
   \<and> (\<exists>this' csd'.
         GraphicsPipeline_createPipelineObject sevenDriver (parentAtZero 42) exampleChild
           = Returns (7, this')
         \<and> gr_compileScratch this' = Some csd' \<and> flags (gpci csd') = 6
         \<and> basePipelineIndex (gpci csd') = - 1 \<and> basePipelineHandle (gpci csd') = 42)
   \<and> GraphicsPipeline_createPipelineObject sevenDriver (parentAtZero 0) exampleChild
        = Returns (7, exampleChild)"
proof -
  obtain csd where s: "gr_compileScratch exampleChild = Some csd"
    and f: "GraphicsPipeline_fillScratch exampleConfig 0 exampleChildInfo = Inr csd"
    using ctor_scratch [OF exampleChild_ctor] by blast
  have pp: "parentPipe csd = Some 0" and g: "gpci csd = ctor_gpci exampleChildInfo"
    using fillScratch_Inr [OF f] by (simp_all add: exampleChildInfo_def)
  have fl: "flags (gpci csd) = 2"
    by (simp add: g ctor_gpci_def VK_PIPELINE_CREATE_ALLOW_DERIVATIVES_BIT_def)
  have ok: "VULKAN_EXIT_ON_FAIL (fst (sevenDriver c i)) x = x"
    and h7: "snd (sevenDriver c i) = 7" for c i and x :: "'a outcome"
    by (simp_all add: sevenDriver_def VULKAN_EXIT_ON_FAIL_def VULKAN_FAIL_def VK_SUCCESS_def)
  have m42: "parentAtZero 42 0
      = Some \<lparr>layout = 0, handle = 42, dynStateMask = 0, gr_compileScratch = None\<rparr>"
    and m0: "parentAtZero 0 0
      = Some \<lparr>layout = 0, handle = 0, dynStateMask = 0, gr_compileScratch = None\<rparr>"
    by (simp_all add: parentAtZero_def)
  have a: "\<exists>this' csd'.
         GraphicsPipeline_createPipelineObject sevenDriver (parentAtZero 42) exampleChild
           = Returns (7, this')
         \<and> gr_compileScratch this' = Some csd' \<and> flags (gpci csd') = 6
         \<and> basePipelineIndex (gpci csd') = - 1 \<and> basePipelineHandle (gpci csd') = 42"
    using derivative_of_parent [where this = exampleChild and csd = csd and pp = 0
        and mem = "parentAtZero 42" and native = sevenDriver, OF s pp m42] fl
    by (auto simp: ok h7 is_null_def getCompiledHandle_def getHandle_def VK_NULL_HANDLE_def
        VK_PIPELINE_CREATE_DERIVATIVE_BIT_def)
  have b: "GraphicsPipeline_createPipelineObject sevenDriver (parentAtZero 0) exampleChild
        = Returns (7, exampleChild)"
    using derivative_of_parent [where this = exampleChild and csd = csd and pp = 0
        and mem = "parentAtZero 0" and native = sevenDriver, OF s pp m0] scratch_update_same [OF s]
    by (auto simp: ok h7 is_null_def getCompiledHandle_def VK_NULL_HANDLE_def)
  show ?thesis using exampleChild_ctor a b by (simp add: exampleChildInfo_def)
qed

text \<open>
  Claim C3, as amended. A failure result of the native creation takes the fatal exit and
  the pipeline gets no handle. A success that yields a null handle is not fatal:
  \<^verbatim>\<open>compile()\<close> logs the error "not compiled but result was ok", releases the render pass
  reference, drops the scratch and stores the null handle, so the pipeline returns without
  a native handle and \<^verbatim>\<open>checkCompiled\<close> stays false. A success with a handle stores the
  handle.
\<close>

theorem compile_null_handle_not_fatal:
  assumes "gr_compileScratch this = Some csd"
    and "createPipelineObject_parentBlock mem csd = Returns csd'"
    and "native (gr_vkCache csd') (gpci csd') = (r, ret)"
  shows "(VULKAN_FAIL r \<longrightarrow> GraphicsPipeline_compile native t mem this = FatalExit)
     \<and> (\<not> VULKAN_FAIL r \<and> is_null ret \<longrightarrow>
          GraphicsPipeline_compile native t mem this =
            Returns (this\<lparr>handle := VK_NULL_HANDLE, gr_compileScratch := None\<rparr>,
                     map_option releasePipelineCompileRef (nativeRP csd'),
                     [Logerr_not_compiled_but_result_was_ok])
          \<and> \<not> checkCompiled (this\<lparr>handle := VK_NULL_HANDLE, gr_compileScratch := None\<rparr>))
     \<and> (\<not> VULKAN_FAIL r \<and> \<not> is_null ret \<longrightarrow>
          GraphicsPipeline_compile native t mem this =
            Returns (this\<lparr>handle := ret, gr_compileScratch := None\<rparr>,
                     map_option releasePipelineCompileRef (nativeRP csd'),
                     (if logsLongCompile t (gr_allocated csd') then [Debug_compiled_in] else []))
          \<and> checkCompiled (this\<lparr>handle := ret, gr_compileScratch := None\<rparr>))"
proof -
  have o: "GraphicsPipeline_createPipelineObject native mem this =
           VULKAN_EXIT_ON_FAIL r (Returns (ret, this\<lparr>gr_compileScratch := Some csd'\<rparr>))"
    using createPipelineObject_after_parentBlock [where native = native, OF assms(1,2)] assms(3)
    by simp
  have 1: "GraphicsPipeline_compile native t mem this = FatalExit" if "VULKAN_FAIL r"
    using o that by (simp add: GraphicsPipeline_compile_def VULKAN_EXIT_ON_FAIL_def)
  have 2: "GraphicsPipeline_compile native t mem this =
     Returns ((if gr_allocated csd' then setCompiledHandle ret (this\<lparr>gr_compileScratch := Some csd'\<rparr>)
               else setHandle ret (this\<lparr>gr_compileScratch := Some csd'\<rparr>))\<lparr>gr_compileScratch := None\<rparr>,
              map_option releasePipelineCompileRef (nativeRP csd'),
              (if is_null ret then [Logerr_not_compiled_but_result_was_ok]
               else if logsLongCompile t (gr_allocated csd') then [Debug_compiled_in]
               else []))" if "\<not> VULKAN_FAIL r"
    using o that
    by (intro compile_after_createPipelineObject) (simp_all add: VULKAN_EXIT_ON_FAIL_def)
  have 3: "(if gr_allocated csd' then setCompiledHandle h (this\<lparr>gr_compileScratch := Some csd'\<rparr>)
               else setHandle h (this\<lparr>gr_compileScratch := Some csd'\<rparr>))\<lparr>gr_compileScratch := None\<rparr>
           = this\<lparr>handle := h, gr_compileScratch := None\<rparr>" for h
    by (simp add: setCompiledHandle_def setHandle_def)
  show ?thesis
    using 1 2 by (auto simp: 3 is_null_def checkCompiled_def)
qed

theorem compile_null_handle_not_fatal_witness:
  "GraphicsPipeline_ctor exampleConfig 0 0 exampleInfo = Inr examplePipeline
   \<and> GraphicsPipeline_compile failingDriver exampleTiming (\<lambda>a. None) examplePipeline = FatalExit
   \<and> GraphicsPipeline_compile sevenDriver exampleTiming (\<lambda>a. None) examplePipeline
       = Returns (examplePipeline\<lparr>handle := 7, gr_compileScratch := None\<rparr>, None, [])"
proof -
  obtain csd where s: "gr_compileScratch examplePipeline = Some csd"
    and f: "GraphicsPipeline_fillScratch exampleConfig 0 exampleInfo = Inr csd"
    using ctor_scratch [OF examplePipeline_ctor] by blast
  have pp: "parentPipe csd = None" and rp: "nativeRP csd = None" and al: "\<not> gr_allocated csd"
    using fillScratch_Inr [OF f] by (simp_all add: exampleInfo_def exampleScratch_def)
  have b: "createPipelineObject_parentBlock (\<lambda>a. None) csd = Returns csd"
    by (simp add: createPipelineObject_parentBlock_def pp)
  have d1: "failingDriver (gr_vkCache csd) (gpci csd) = (VK_ERROR_UNKNOWN, VK_NULL_HANDLE)"
    by (simp add: failingDriver_def)
  have d2: "sevenDriver (gr_vkCache csd) (gpci csd) = (VK_SUCCESS, 7)"
    by (simp add: sevenDriver_def)
  have l: "\<not> logsLongCompile exampleTiming False"
    by (simp add: logsLongCompile_def exampleTiming_def)
  show ?thesis
    using examplePipeline_ctor
      compile_null_handle_not_fatal [where this = examplePipeline and csd = csd and csd' = csd
        and mem = "\<lambda>a. None" and native = failingDriver and t = exampleTiming, OF s b d1]
      compile_null_handle_not_fatal [where this = examplePipeline and csd = csd and csd' = csd
        and mem = "\<lambda>a. None" and native = sevenDriver and t = exampleTiming, OF s b d2] rp al l
    by (simp add: VULKAN_FAIL_def VK_ERROR_UNKNOWN_def VK_SUCCESS_def is_null_def VK_NULL_HANDLE_def)
qed

text \<open>
  The claim as it is written fails on the pipeline built from \<^verbatim>\<open>exampleInfo\<close> with a
  driver that returns \<^verbatim>\<open>VK_SUCCESS\<close> and writes no handle: \<^verbatim>\<open>compile()\<close> returns, with
  the error logged and the null handle stored; the fatal exit is not taken.
\<close>

theorem compile_null_handle_counterexample:
  "GraphicsPipeline_ctor exampleConfig 0 0 exampleInfo = Inr examplePipeline
   \<and> nullOkDriver 0 (ctor_gpci exampleInfo) = (VK_SUCCESS, VK_NULL_HANDLE)
   \<and> GraphicsPipeline_compile nullOkDriver exampleTiming (\<lambda>a. None) examplePipeline \<noteq> FatalExit
   \<and> GraphicsPipeline_compile nullOkDriver exampleTiming (\<lambda>a. None) examplePipeline
       = Returns (examplePipeline\<lparr>handle := VK_NULL_HANDLE, gr_compileScratch := None\<rparr>, None,
                  [Logerr_not_compiled_but_result_was_ok])
   \<and> is_null (getHandle (examplePipeline\<lparr>handle := VK_NULL_HANDLE, gr_compileScratch := None\<rparr>))"
proof -
  obtain csd where s: "gr_compileScratch examplePipeline = Some csd"
    and f: "GraphicsPipeline_fillScratch exampleConfig 0 exampleInfo = Inr csd"
    using ctor_scratch [OF examplePipeline_ctor] by blast
  have pp: "parentPipe csd = None" and rp: "nativeRP csd = None"
    using fillScratch_Inr [OF f] by (simp_all add: exampleInfo_def exampleScratch_def)
  have b: "createPipelineObject_parentBlock (\<lambda>a. None) csd = Returns csd"
    by (simp add: createPipelineObject_parentBlock_def pp)
  have o: "GraphicsPipeline_createPipelineObject nullOkDriver (\<lambda>a. None) examplePipeline
            = Returns (VK_NULL_HANDLE, examplePipeline)"
    using createPipelineObject_after_parentBlock [where mem = "\<lambda>a. None" and native = nullOkDriver,
        OF s b] scratch_update_same [OF s]
    by (simp add: nullOkDriver_def VULKAN_EXIT_ON_FAIL_def VULKAN_FAIL_def VK_SUCCESS_def)
  have c: "GraphicsPipeline_compile nullOkDriver exampleTiming (\<lambda>a. None) examplePipeline
       = Returns (examplePipeline\<lparr>handle := VK_NULL_HANDLE, gr_compileScratch := None\<rparr>, None,
                  [Logerr_not_compiled_but_result_was_ok])"
    using compile_after_createPipelineObject [where t = exampleTiming, OF o s] rp
    by (simp add: is_null_def setCompiledHandle_def setHandle_def)
  show ?thesis
    using examplePipeline_ctor c by (simp add: nullOkDriver_def is_null_def getHandle_def)
qed

subsection \<open>PipelineManager::visit\<close>

lemma valid_get:
  "valid program st \<Longrightarrow> \<exists>p. pipelines st ! getIndexFromID program = Some p \<and> get program st = Inr p"
  by (auto simp: valid_def get_def Let_def)

lemma processEntry_other:
  "programTag program \<noteq> storageKind st \<Longrightarrow> processPipelineStorageEntry st program func w = None"
  by (simp add: processPipelineStorageEntry_def checkID_def)

lemma processEntry_own:
  "programTag program = storageKind st \<Longrightarrow>
     processPipelineStorageEntry st program func w =
       Some (if valid program st
             then Inr (True, func (storageKind st) (the (pipelines st ! getIndexFromID program)) w)
             else Inr (False, w))"
  using valid_get [of program st]
  by (auto simp: processPipelineStorageEntry_def checkID_def)

lemma visit_eq:
  assumes "wellKinded m"
  shows "visit rt m program func w =
           (case ownerStorage rt m program of
              None \<Rightarrow> Inr (False, w)
            | Some st \<Rightarrow>
                if valid program st
                then Inr (True, func (programTag program) (the (pipelines st ! getIndexFromID program)) w)
                else Inr (False, w))"
proof (cases "programTag program")
  case GraphicsProgramTag
  then show ?thesis using assms
    by (simp add: visit_def ownerStorage_def wellKinded_def processEntry_own)
next
  case ComputeProgramTag
  then show ?thesis using assms
    by (simp add: visit_def ownerStorage_def wellKinded_def processEntry_own processEntry_other)
next
  case RaytraceProgramTag
  then show ?thesis using assms
    by (simp add: visit_def ownerStorage_def wellKinded_def processEntry_own processEntry_other)
next
  case NoProgramTag
  then show ?thesis using assms
    by (simp add: visit_def ownerStorage_def wellKinded_def processEntry_other)
qed

lemma programTag_makeID: "programTag (makeID kind i) = kind"
  by (simp add: makeID_def)

text \<open>
  Claim C9. \<^verbatim>\<open>visit(program, func)\<close> on a manager whose storages are of their own kinds:
  when no storage owns the identifier's namespace, or the owning storage's
  \<^verbatim>\<open>valid(program)\<close> is false, it returns false and the state the callback acts on is
  unchanged, the callback is not invoked; otherwise it returns true after one invocation of
  the callback, on the pipeline of the identifier's slot. The log of a callback that
  records its invocations has no entry in the first case and one in the second. The state
  \<^verbatim>\<open>w\<close> stands for everything the callback can write, the storages among it; \<^verbatim>\<open>visit\<close>
  itself only reads the manager.
\<close>

theorem visit_once:
  assumes "wellKinded m"
  shows "(case ownerStorage rt m program of
            None \<Rightarrow> visit rt m program func w = Inr (False, w)
                    \<and> visit rt m program (\<lambda>kind p calls. calls @ [(kind, p)]) [] = Inr (False, [])
          | Some st \<Rightarrow>
              (\<not> valid program st \<longrightarrow>
                 visit rt m program func w = Inr (False, w)
                 \<and> visit rt m program (\<lambda>kind p calls. calls @ [(kind, p)]) [] = Inr (False, []))
              \<and> (valid program st \<longrightarrow>
                   (\<exists>p. pipelines st ! getIndexFromID program = Some p
                      \<and> visit rt m program func w = Inr (True, func (programTag program) p w)
                      \<and> visit rt m program (\<lambda>kind p calls. calls @ [(kind, p)]) []
                          = Inr (True, [(programTag program, p)]))))"
proof (cases "ownerStorage rt m program")
  case None
  then show ?thesis by (simp add: visit_eq [OF assms])
next
  case (Some st)
  show ?thesis
  proof (cases "valid program st")
    case True
    then obtain p where "pipelines st ! getIndexFromID program = Some p"
      using valid_get by blast
    then show ?thesis using Some True by (simp add: visit_eq [OF assms])
  next
    case False
    then show ?thesis using Some by (simp add: visit_eq [OF assms])
  qed
qed


theorem visit_once_witness:
  "wellKinded exampleManager
   \<and> visit False exampleManager (makeID ComputeProgramTag 0) (\<lambda>kind p calls. calls @ [(kind, p)]) []
       = Inr (True, [(ComputeProgramTag, (200, examplePipelineObject))])
   \<and> visit False exampleManager (makeID ComputeProgramTag 1) (\<lambda>kind p calls. calls @ [(kind, p)]) []
       = Inr (False, [])
   \<and> visit False exampleManager (makeID GraphicsProgramTag 0) (\<lambda>kind p calls. calls @ [(kind, p)]) []
       = Inr (False, [])
   \<and> visit False exampleManager (makeID RaytraceProgramTag 0) (\<lambda>kind p calls. calls @ [(kind, p)]) []
       = Inr (False, [])"
proof -
  have wk: "wellKinded exampleManager"
    by (simp add: wellKinded_def exampleManager_def exampleStorage_def emptyStorage_def)
  have o: "ownerStorage False exampleManager (makeID ComputeProgramTag i) = Some exampleStorage"
    "ownerStorage False exampleManager (makeID GraphicsProgramTag i) = Some (emptyStorage GraphicsProgramTag)"
    "ownerStorage False exampleManager (makeID RaytraceProgramTag i) = None" for i
    by (simp_all add: ownerStorage_def makeID_def exampleManager_def)
  have v: "valid (makeID ComputeProgramTag 0) exampleStorage"
    "\<not> valid (makeID ComputeProgramTag 1) exampleStorage"
    "\<not> valid (makeID GraphicsProgramTag 0) (emptyStorage GraphicsProgramTag :: (nat, nat, unit) PipelineManagerStorage)"
    by (simp_all add: valid_def makeID_def exampleStorage_def emptyStorage_def getIndexFromID_def
        checkID_def)
  have p: "pipelines exampleStorage ! getIndexFromID (makeID ComputeProgramTag 0)
            = Some (200, examplePipelineObject)"
    by (simp add: exampleStorage_def makeID_def getIndexFromID_def)
  show ?thesis
    using wk v p
      visit_once [OF wk, where rt = False and program = "makeID ComputeProgramTag 0"
        and func = "\<lambda>kind p calls. calls @ [(kind, p)]" and w = "[]"]
      visit_once [OF wk, where rt = False and program = "makeID ComputeProgramTag 1"
        and func = "\<lambda>kind p calls. calls @ [(kind, p)]" and w = "[]"]
      visit_once [OF wk, where rt = False and program = "makeID GraphicsProgramTag 0"
        and func = "\<lambda>kind p calls. calls @ [(kind, p)]" and w = "[]"]
      visit_once [OF wk, where rt = False and program = "makeID RaytraceProgramTag 0"
        and func = "\<lambda>kind p calls. calls @ [(kind, p)]" and w = "[]"]
    by (simp add: o programTag_makeID)
qed

subsection \<open>takeOut\<close>

lemma findOrAddLayout_pipelines:
  "findOrAddLayout matches newLayout fresh li s = (l, s1) \<Longrightarrow>
     pipelines s1 = pipelines s \<and> storageKind s1 = storageKind s"
  by (auto simp: findOrAddLayout_def split: option.splits)

lemma ensureSpace_in_range:
  "index < length (pipelines s) \<Longrightarrow> ensureSpaceForIndex index s = s"
  by (simp add: ensureSpaceForIndex_def)

lemma exampleStorage_takeOut:
  "takeOut 0 exampleStorage
     = Inr ((200, examplePipelineObject), exampleStorage\<lparr>pipelines := [None]\<rparr>)"
  by (simp add: takeOut_def exampleStorage_def)

lemma exampleStorage_add_again:
  "add (=) (\<lambda>li. li) 101 201 (makeID ComputeProgramTag 0) 0 \<lparr>info_layout = 5\<rparr>
       (exampleStorage\<lparr>pipelines := [None]\<rparr>)
     = Inr (exampleStorage\<lparr>pipelines := [Some (201, examplePipelineObject)]\<rparr>)"
  by (simp add: add_def findOrAddLayout_def ensureSpaceForIndex_def exampleStorage_def checkID_def
      makeID_def getIndexFromID_def examplePipelineObject_def)

text \<open>
  Claim C7. For a slot that holds a pipeline, \<^verbatim>\<open>takeOut(index)\<close> returns the pointer the
  slot held and leaves the slot null, every other slot, the length and the layouts as
  they were; afterwards \<^verbatim>\<open>valid\<close> is false for every identifier of that index, and \<^verbatim>\<open>add\<close>
  with an identifier of that index and of the storage's kind passes both assertions and
  puts the new pipeline in the slot, again with no other slot changed.
\<close>

theorem takeOut_clears_slot:
  assumes "index < length (pipelines s)" and "pipelines s ! index = Some p"
  shows "\<exists>s'. takeOut index s = Inr (p, s')
      \<and> pipelines s' ! index = None
      \<and> length (pipelines s') = length (pipelines s)
      \<and> (\<forall>j. j \<noteq> index \<longrightarrow> pipelines s' ! j = pipelines s ! j)
      \<and> layouts s' = layouts s \<and> storageKind s' = storageKind s
      \<and> (\<forall>program. getIndexFromID program = index \<longrightarrow> \<not> valid program s')
      \<and> (\<forall>program. getIndexFromID program = index \<and> checkID (storageKind s) program \<longrightarrow>
            (\<forall>matches newLayout freshLayout freshPipeline cache info.
               \<exists>s'' l. add matches newLayout freshLayout freshPipeline program cache info s' = Inr s''
                 \<and> pipelines s'' =
                     (pipelines s')[index := Some (freshPipeline,
                        \<lparr>ctor_program = program, ctor_cache = cache, ctor_layout = l,
                         ctor_info = info\<rparr>)]))"
proof -
  define s' where "s' = s\<lparr>pipelines := (pipelines s)[index := None]\<rparr>"
  have t: "takeOut index s = Inr (p, s')"
    using assms by (simp add: takeOut_def s'_def)
  have n: "pipelines s' ! index = None" and len: "length (pipelines s') = length (pipelines s)"
    and k: "storageKind s' = storageKind s" and la: "layouts s' = layouts s"
    using assms(1) by (simp_all add: s'_def)
  have o: "\<forall>j. j \<noteq> index \<longrightarrow> pipelines s' ! j = pipelines s ! j"
    by (simp add: s'_def)
  have v: "\<forall>program. getIndexFromID program = index \<longrightarrow> \<not> valid program s'"
    using n by (simp add: valid_def Let_def)
  have a: "\<exists>s'' l. add matches newLayout freshLayout freshPipeline program cache info s' = Inr s''
                 \<and> pipelines s'' =
                     (pipelines s')[index := Some (freshPipeline,
                        \<lparr>ctor_program = program, ctor_cache = cache, ctor_layout = l,
                         ctor_info = info\<rparr>)]"
    if g: "getIndexFromID program = index" and c: "checkID (storageKind s) program"
    for program matches newLayout freshLayout freshPipeline cache info
  proof -
    obtain l s1 where f: "findOrAddLayout matches newLayout freshLayout (info_layout info) s' = (l, s1)"
      by (cases "findOrAddLayout matches newLayout freshLayout (info_layout info) s'") auto
    have p1: "pipelines s1 = pipelines s'" using findOrAddLayout_pipelines [OF f] by simp
    have e: "ensureSpaceForIndex index s1 = s1"
      using assms(1) by (simp add: ensureSpace_in_range p1 len)
    define s'' where "s'' = s1\<lparr>pipelines := (pipelines s1)
                   [index := Some (freshPipeline,
                      \<lparr>ctor_program = program, ctor_cache = cache, ctor_layout = l,
                       ctor_info = info\<rparr>)]\<rparr>"
    have "add matches newLayout freshLayout freshPipeline program cache info s' = Inr s''"
      using c g n by (simp add: add_def f e p1 k s''_def)
    moreover have "pipelines s'' = (pipelines s')
                   [index := Some (freshPipeline,
                      \<lparr>ctor_program = program, ctor_cache = cache, ctor_layout = l,
                       ctor_info = info\<rparr>)]"
      by (simp add: s''_def p1)
    ultimately show ?thesis by blast
  qed
  show ?thesis using t n len o la k v a by blast
qed


theorem takeOut_clears_slot_witness:
  "0 < length (pipelines exampleStorage)
   \<and> pipelines exampleStorage ! 0 = Some (200, examplePipelineObject)
   \<and> valid (makeID ComputeProgramTag 0) exampleStorage
   \<and> takeOut 0 exampleStorage
       = Inr ((200, examplePipelineObject), exampleStorage\<lparr>pipelines := [None]\<rparr>)
   \<and> \<not> valid (makeID ComputeProgramTag 0) (exampleStorage\<lparr>pipelines := [None]\<rparr>)
   \<and> add (=) (\<lambda>li. li) 101 201 (makeID ComputeProgramTag 0) 0 \<lparr>info_layout = 5\<rparr>
         (exampleStorage\<lparr>pipelines := [None]\<rparr>)
       = Inr (exampleStorage\<lparr>pipelines := [Some (201, examplePipelineObject)]\<rparr>)"
proof -
  have h1: "0 < length (pipelines exampleStorage)"
    and h2: "pipelines exampleStorage ! 0 = Some (200, examplePipelineObject)"
    by (simp_all add: exampleStorage_def)
  have v: "valid (makeID ComputeProgramTag 0) exampleStorage"
    by (simp add: valid_def makeID_def exampleStorage_def getIndexFromID_def checkID_def)
  have g: "getIndexFromID (makeID ComputeProgramTag 0) = 0"
    by (simp add: makeID_def getIndexFromID_def)
  obtain s' where t: "takeOut 0 exampleStorage = Inr ((200, examplePipelineObject), s')"
    and n: "\<forall>program. getIndexFromID program = 0 \<longrightarrow> \<not> valid program s'"
    using takeOut_clears_slot [OF h1 h2] by blast
  have "s' = exampleStorage\<lparr>pipelines := [None]\<rparr>"
    using t by (simp add: exampleStorage_takeOut)
  then have "\<not> valid (makeID ComputeProgramTag 0) (exampleStorage\<lparr>pipelines := [None]\<rparr>)"
    using n g by blast
  then show ?thesis
    using h1 h2 v exampleStorage_takeOut exampleStorage_add_again by blast
qed

subsection \<open>Layout sharing\<close>

lemma findLayout_append:
  "findLayout matches (xs @ ys) li =
     (case findLayout matches xs li of Some a \<Rightarrow> Some a | None \<Rightarrow> findLayout matches ys li)"
  by (induction xs) auto

lemma findLayout_first:
  "findLayout matches ls li = Some a \<longleftrightarrow>
     (\<exists>i<length ls. fst (ls ! i) = a \<and> matches (snd (ls ! i)) li
        \<and> (\<forall>j<i. \<not> matches (snd (ls ! j)) li))"
proof (induction ls)
  case Nil
  then show ?case by simp
next
  case (Cons x ls)
  obtain b l where x: "x = (b, l)" by (cases x)
  show ?case
  proof (cases "matches l li")
    case True
    have z: "i = 0" if "\<forall>j<i. \<not> matches (snd ((x # ls) ! j)) li" for i
      using that True x by (cases i) auto
    have "(\<exists>i<length (x # ls). fst ((x # ls) ! i) = a \<and> matches (snd ((x # ls) ! i)) li
              \<and> (\<forall>j<i. \<not> matches (snd ((x # ls) ! j)) li)) \<longleftrightarrow> a = b" (is "?L \<longleftrightarrow> _")
    proof
      assume ?L
      then obtain i where i: "fst ((x # ls) ! i) = a"
        "\<forall>j<i. \<not> matches (snd ((x # ls) ! j)) li" by blast
      have "i = 0" using z [OF i(2)] .
      then show "a = b" using i(1) x by simp
    next
      assume "a = b"
      then show ?L using True x by (intro exI [of _ 0]) simp
    qed
    then show ?thesis using True unfolding x by auto
  next
    case False
    have "(\<exists>i<length (x # ls). fst ((x # ls) ! i) = a \<and> matches (snd ((x # ls) ! i)) li
              \<and> (\<forall>j<i. \<not> matches (snd ((x # ls) ! j)) li))
          \<longleftrightarrow> (\<exists>i<length ls. fst (ls ! i) = a \<and> matches (snd (ls ! i)) li
              \<and> (\<forall>j<i. \<not> matches (snd (ls ! j)) li))" (is "?L \<longleftrightarrow> ?R")
    proof
      assume ?L
      then obtain i where i: "i < length (x # ls)" "fst ((x # ls) ! i) = a"
        "matches (snd ((x # ls) ! i)) li" "\<forall>j<i. \<not> matches (snd ((x # ls) ! j)) li" by blast
      have "i \<noteq> 0" using i(3) False x by (cases i) auto
      then obtain k where k: "i = Suc k" by (cases i) auto
      have "\<forall>j<k. \<not> matches (snd (ls ! j)) li"
        using i(4) k by (metis Suc_less_eq nth_Cons_Suc)
      then show ?R using i k by auto
    next
      assume ?R
      then obtain i where i: "i < length ls" "fst (ls ! i) = a" "matches (snd (ls ! i)) li"
        "\<forall>j<i. \<not> matches (snd (ls ! j)) li" by blast
      have "\<forall>j<Suc i. \<not> matches (snd ((x # ls) ! j)) li"
        using i(4) False x by (auto simp: nth_Cons')
      then show ?L using i by (intro exI [of _ "Suc i"]) auto
    qed
    then show ?thesis using False Cons.IH unfolding x by simp
  qed
qed

lemma findOrAddLayout_result:
  assumes "\<forall>li. matches (newLayout li) li"
    and "findOrAddLayout matches newLayout fresh li s = (l, s1)"
  shows "findLayout matches (layouts s1) li = Some l"
    and "\<exists>ys. layouts s1 = layouts s @ ys"
    and "pipelines s1 = pipelines s" and "storageKind s1 = storageKind s"
  using assms
  by (auto simp: findOrAddLayout_def findLayout_append split: option.splits)

lemma ensureSpace_layouts:
  "layouts (ensureSpaceForIndex index s) = layouts s"
  "index < length (pipelines (ensureSpaceForIndex index s))"
  "storageKind (ensureSpaceForIndex index s) = storageKind s"
  by (auto simp: ensureSpaceForIndex_def Let_def)

lemma add_result:
  assumes "\<forall>li. matches (newLayout li) li"
    and "add matches newLayout freshLayout freshPipeline program cache info s = Inr s'"
  shows "\<exists>l. findLayout matches (layouts s') (info_layout info) = Some l
            \<and> layoutOfSlot (getIndexFromID program) s' = Some l"
    and "\<exists>ys. layouts s' = layouts s @ ys"
proof -
  obtain l s1 where f: "findOrAddLayout matches newLayout freshLayout (info_layout info) s = (l, s1)"
    by (cases "findOrAddLayout matches newLayout freshLayout (info_layout info) s") auto
  define s2 where "s2 = ensureSpaceForIndex (getIndexFromID program) s1"
  have e: "s' = s2\<lparr>pipelines := (pipelines s2)
                   [getIndexFromID program := Some (freshPipeline,
                      \<lparr>ctor_program = program, ctor_cache = cache, ctor_layout = l,
                       ctor_info = info\<rparr>)]\<rparr>"
    using assms(2) by (simp add: add_def f s2_def Let_def split: if_splits)
  have l2: "layouts s2 = layouts s1" and i2: "getIndexFromID program < length (pipelines s2)"
    by (simp_all add: s2_def ensureSpace_layouts)
  show "\<exists>l. findLayout matches (layouts s') (info_layout info) = Some l
            \<and> layoutOfSlot (getIndexFromID program) s' = Some l"
    using findOrAddLayout_result(1) [OF assms(1) f] i2
    by (simp add: e l2 layoutOfSlot_def)
  show "\<exists>ys. layouts s' = layouts s @ ys"
    using findOrAddLayout_result(2) [OF assms(1) f] by (simp add: e l2)
qed

lemma add_layouts_grow:
  "add matches newLayout freshLayout freshPipeline program cache info s = Inr s' \<Longrightarrow>
     \<exists>ys. layouts s' = layouts s @ ys"
  by (auto simp: add_def findOrAddLayout_def ensureSpace_layouts Let_def
      split: if_splits option.splits)

lemma takeOut_layouts:
  "takeOut index s = Inr (ret, s') \<Longrightarrow> layouts s' = layouts s"
  by (auto simp: takeOut_def split: if_splits option.splits)

lemma runOp_layouts_grow:
  "runOp matches newLayout op s = Inr s' \<Longrightarrow> \<exists>ys. layouts s' = layouts s @ ys"
proof (cases op)
  case (Add a b c d e)
  assume "runOp matches newLayout op s = Inr s'"
  then show ?thesis using Add add_layouts_grow by fastforce
next
  case (TakeOut i)
  assume "runOp matches newLayout op s = Inr s'"
  then show ?thesis using TakeOut takeOut_layouts by (fastforce split: sum.splits)
qed

lemma runOps_layouts_grow:
  "runOps matches newLayout ops s = Inr s' \<Longrightarrow> \<exists>ys. layouts s' = layouts s @ ys"
proof (induction ops arbitrary: s)
  case Nil
  then show ?case by simp
next
  case (Cons op ops)
  then obtain s1 where 1: "runOp matches newLayout op s = Inr s1"
    and 2: "runOps matches newLayout ops s1 = Inr s'"
    by (auto split: sum.splits)
  obtain ys zs where "layouts s1 = layouts s @ ys" "layouts s' = layouts s1 @ zs"
    using runOp_layouts_grow [OF 1] Cons.IH [OF 2] by blast
  then show ?case by simp
qed

lemma example_add1:
  "add (=) (\<lambda>li. li) 100 200 (makeID ComputeProgramTag 0) 0 \<lparr>info_layout = 5\<rparr>
     (emptyStorage ComputeProgramTag) = Inr exampleStorage"
  by (simp add: add_def findOrAddLayout_def ensureSpaceForIndex_def exampleStorage_def checkID_def
      makeID_def getIndexFromID_def examplePipelineObject_def emptyStorage_def)

lemma example_ops: "runOps (=) (\<lambda>li. li) exampleOps exampleStorage = Inr exampleStorage2"
  by (simp add: exampleOps_def add_def findOrAddLayout_def ensureSpaceForIndex_def exampleStorage_def
      checkID_def makeID_def getIndexFromID_def examplePipelineObject_def takeOut_def
      exampleStorage2_def)

lemma example_add3:
  "add (=) (\<lambda>li. li) 102 202 (makeID ComputeProgramTag 2) 0 \<lparr>info_layout = 5\<rparr> exampleStorage2
     = Inr (exampleStorage2\<lparr>pipelines := pipelines exampleStorage2 @
          [Some (202, \<lparr>ctor_program = makeID ComputeProgramTag 2, ctor_cache = 0, ctor_layout = 100,
                       ctor_info = \<lparr>info_layout = 5\<rparr>\<rparr>)]\<rparr>)"
  by (simp add: add_def findOrAddLayout_def ensureSpaceForIndex_def exampleStorage2_def
      checkID_def makeID_def getIndexFromID_def nth_append)

text \<open>
  Claim C2. Two calls of \<^verbatim>\<open>add\<close> on one storage with equal layout descriptions, with any
  calls of \<^verbatim>\<open>add\<close> and \<^verbatim>\<open>takeOut\<close> in between, in either order of the two: the pipeline
  the first call constructed and the pipeline the second call constructed hold the same
  layout pointer. It is the pointer of the first layout in \<^verbatim>\<open>layouts\<close> that matches the
  description, and the second call appends no layout. \<^verbatim>\<open>LayoutType::matches\<close> is a
  parameter; what is assumed of it is that a layout constructed from a description
  matches that description.
\<close>

theorem equal_layout_descriptions_share_layout:
  assumes "\<forall>li. matches (newLayout li) li"
    and "add matches newLayout freshLayout1 freshPipeline1 program1 cache1 info1 s = Inr s1"
    and "runOps matches newLayout ops s1 = Inr s2"
    and "add matches newLayout freshLayout2 freshPipeline2 program2 cache2 info2 s2 = Inr s3"
    and "info_layout info1 = info_layout info2"
  shows "\<exists>l. layoutOfSlot (getIndexFromID program1) s1 = Some l
           \<and> layoutOfSlot (getIndexFromID program2) s3 = Some l
           \<and> layouts s3 = layouts s2
           \<and> (\<exists>i<length (layouts s3). fst (layouts s3 ! i) = l
                 \<and> matches (snd (layouts s3 ! i)) (info_layout info2)
                 \<and> (\<forall>j<i. \<not> matches (snd (layouts s3 ! j)) (info_layout info2)))"
proof -
  obtain l where l1: "findLayout matches (layouts s1) (info_layout info1) = Some l"
    and o1: "layoutOfSlot (getIndexFromID program1) s1 = Some l"
    using add_result(1) [OF assms(1,2)] by blast
  obtain ys where "layouts s2 = layouts s1 @ ys"
    using runOps_layouts_grow [OF assms(3)] by blast
  then have l2: "findLayout matches (layouts s2) (info_layout info2) = Some l"
    using l1 assms(5) by (simp add: findLayout_append)
  then have f: "findOrAddLayout matches newLayout freshLayout2 (info_layout info2) s2 = (l, s2)"
    by (simp add: findOrAddLayout_def)
  define s2' where "s2' = ensureSpaceForIndex (getIndexFromID program2) s2"
  have e: "s3 = s2'\<lparr>pipelines := (pipelines s2')
                   [getIndexFromID program2 := Some (freshPipeline2,
                      \<lparr>ctor_program = program2, ctor_cache = cache2, ctor_layout = l,
                       ctor_info = info2\<rparr>)]\<rparr>"
    using assms(4) by (simp add: add_def f s2'_def Let_def split: if_splits)
  have la: "layouts s2' = layouts s2" and i2: "getIndexFromID program2 < length (pipelines s2')"
    by (simp_all add: s2'_def ensureSpace_layouts)
  have "layoutOfSlot (getIndexFromID program2) s3 = Some l"
    using i2 by (simp add: e layoutOfSlot_def)
  moreover have l3: "layouts s3 = layouts s2" by (simp add: e la)
  moreover have "\<exists>i<length (layouts s3). fst (layouts s3 ! i) = l
                 \<and> matches (snd (layouts s3 ! i)) (info_layout info2)
                 \<and> (\<forall>j<i. \<not> matches (snd (layouts s3 ! j)) (info_layout info2))"
    using l2 unfolding l3 by (simp only: findLayout_first)
  ultimately show ?thesis using o1 by blast
qed

theorem equal_layout_descriptions_share_layout_witness:
  "(\<forall>li :: nat. (\<lambda>li. li) li = li)
   \<and> add (=) (\<lambda>li. li) 100 200 (makeID ComputeProgramTag 0) 0 \<lparr>info_layout = 5\<rparr>
       (emptyStorage ComputeProgramTag) = Inr exampleStorage
   \<and> runOps (=) (\<lambda>li. li) exampleOps exampleStorage = Inr exampleStorage2
   \<and> (\<exists>s3. add (=) (\<lambda>li. li) 102 202 (makeID ComputeProgramTag 2) 0 \<lparr>info_layout = 5\<rparr>
               exampleStorage2 = Inr s3
          \<and> layoutOfSlot 0 exampleStorage = Some 100
          \<and> layoutOfSlot 2 s3 = Some 100
          \<and> layouts s3 = [(100, 5), (101, 6)])"
proof -
  have r: "\<forall>li :: nat. (\<lambda>li. li) li = li" by simp
  have i: "info_layout \<lparr>info_layout = 5 :: nat\<rparr> = info_layout \<lparr>info_layout = 5 :: nat\<rparr>" by simp
  have g: "getIndexFromID (makeID ComputeProgramTag 0) = 0"
    "getIndexFromID (makeID ComputeProgramTag 2) = 2"
    by (simp_all add: makeID_def getIndexFromID_def)
  have o: "layoutOfSlot 0 exampleStorage = Some 100"
    by (simp add: layoutOfSlot_def exampleStorage_def examplePipelineObject_def)
  show ?thesis
    using equal_layout_descriptions_share_layout
      [where matches = "(=)" and newLayout = "\<lambda>li. li", OF r example_add1 example_ops example_add3 i]
      example_add1 example_ops example_add3 o
    by (simp add: g exampleStorage2_def)
qed

subsection \<open>ComputePipeline::bind\<close>

lemma compute_compile_cases:
  assumes "compileScratch this = Some scratch" and "native scratch = (r, h)"
  shows "ComputePipeline_compile native t this =
           (if VULKAN_FAIL r \<or> is_null h then FatalExit
            else Returns (this\<lparr>handle := h, compileScratch := None\<rparr>,
                          if logsLongCompile t (allocated scratch) then [Debug_compiled_in] else []))"
  using assms
  by (auto simp: ComputePipeline_compile_def Let_def VULKAN_EXIT_ON_FAIL_def VULKAN_FAIL_def
      VULKAN_OK_def VK_ERROR_UNKNOWN_def setCompiledHandle_def setHandle_def)

lemma compute_compile_Returns:
  assumes "ComputePipeline_compile native t this = Returns (this', log)"
  shows "checkCompiled this' \<and> compileScratch this' = None \<and> layout this' = layout this"
proof -
  obtain scratch where s: "compileScratch this = Some scratch"
    using assms by (cases "compileScratch this") (auto simp: ComputePipeline_compile_def)
  obtain r h where n: "native scratch = (r, h)" by (cases "native scratch")
  show ?thesis
    using assms compute_compile_cases [where native = native and t = t, OF s n]
    by (auto simp: checkCompiled_def split: if_splits)
qed

lemma compute_compile_not_blocked:
  "compileScratch this \<noteq> None \<Longrightarrow>
     ComputePipeline_compile native t this = FatalExit
     \<or> (\<exists>r. ComputePipeline_compile native t this = Returns r)"
proof -
  assume "compileScratch this \<noteq> None"
  then obtain scratch where s: "compileScratch this = Some scratch" by auto
  obtain r h where n: "native scratch = (r, h)" by (cases "native scratch")
  show ?thesis using compute_compile_cases [where native = native and t = t, OF s n] by auto
qed

lemma compileQueued_Returns:
  assumes "PipelineCompiler_compileQueued native t p s = Returns s'"
  shows "\<exists>pipe pipe' log. pipes s p = Some pipe
           \<and> ComputePipeline_compile native t pipe = Returns (pipe', log)
           \<and> s' = s\<lparr>pipes := (pipes s)(p := Some pipe'),
                     compileQueue := removeAll p (compileQueue s)\<rparr>"
  using assms
  by (auto simp: PipelineCompiler_compileQueued_def split: option.splits outcome.splits)

lemma compileQueued_inv:
  assumes "pendingAreQueued s" and "PipelineCompiler_compileQueued native t p s = Returns s'"
  shows "pendingAreQueued s'"
proof -
  obtain pipe pipe' log where c: "ComputePipeline_compile native t pipe = Returns (pipe', log)"
    and e: "s' = s\<lparr>pipes := (pipes s)(p := Some pipe'),
                     compileQueue := removeAll p (compileQueue s)\<rparr>"
    using compileQueued_Returns [OF assms(2)] by blast
  have "checkCompiled pipe'" using compute_compile_Returns [OF c] by simp
  then show ?thesis using assms(1) by (auto simp: pendingAreQueued_def e)
qed

lemma waitFor_Returns:
  assumes "PipelineCompiler_waitFor native t p s = Returns s'"
  shows "s' = s \<or> PipelineCompiler_compileQueued native t p s = Returns s'"
  using assms by (auto simp: PipelineCompiler_waitFor_def split: option.splits if_splits)

lemma waitFor_inv:
  assumes "pendingAreQueued s" and "PipelineCompiler_waitFor native t p s = Returns s'"
  shows "pendingAreQueued s'"
  using waitFor_Returns [OF assms(2)] assms(1) compileQueued_inv by blast

lemma waitFor_compiled:
  assumes "pendingAreQueued s" and "pipes s p = Some pipe" and "\<not> checkCompiled pipe"
  shows "PipelineCompiler_waitFor native t p s = FatalExit
       \<or> (\<exists>s' pipe'. PipelineCompiler_waitFor native t p s = Returns s'
             \<and> pipes s' p = Some pipe' \<and> checkCompiled pipe')"
proof -
  have q: "p \<in> set (compileQueue s)" and sc: "compileScratch pipe \<noteq> None"
    using assms by (auto simp: pendingAreQueued_def)
  have w: "PipelineCompiler_waitFor native t p s = PipelineCompiler_compileQueued native t p s"
    using assms(2,3) q by (simp add: PipelineCompiler_waitFor_def)
  show ?thesis
  proof (cases "ComputePipeline_compile native t pipe")
    case (Returns r)
    obtain pipe' log where r: "r = (pipe', log)" by (cases r)
    have "checkCompiled pipe'" using compute_compile_Returns Returns r by blast
    then show ?thesis
      using Returns r assms(2) by (simp add: w PipelineCompiler_compileQueued_def)
  next
    case FatalExit
    then show ?thesis using assms(2) by (simp add: w PipelineCompiler_compileQueued_def)
  next
    case NeverReturns
    then show ?thesis using compute_compile_not_blocked [OF sc, of native t] by simp
  next
    case InvalidPointer
    then show ?thesis using compute_compile_not_blocked [OF sc, of native t] by simp
  qed
qed

lemma bind_Returns:
  assumes "ComputePipeline_bind native t this s = Returns (s', calls)"
  shows "s' = s \<or> PipelineCompiler_waitFor native t this s = Returns s'"
  using assms
  by (auto simp: ComputePipeline_bind_def split: option.splits if_splits outcome.splits)

lemma cleanup_Returns:
  assumes "ComputePipeline_onDelayedCleanupFinish native t this s = Returns s'"
  shows "\<exists>s1. (s1 = s \<or> PipelineCompiler_waitFor native t this s = Returns s1)
           \<and> s' = s1\<lparr>pipes := (pipes s1)(this := None)\<rparr>"
  using assms
  by (auto simp: ComputePipeline_onDelayedCleanupFinish_def split: option.splits if_splits outcome.splits)

lemma delete_inv:
  "pendingAreQueued s \<Longrightarrow> pendingAreQueued (s\<lparr>pipes := (pipes s)(this := None)\<rparr>)"
  by (auto simp: pendingAreQueued_def)

lemma ctor_inv:
  assumes "pendingAreQueued s"
    and "ComputePipeline_ctor native t this prog cache l layoutHandle vk_module async s = Returns s'"
  shows "pendingAreQueued s'"
proof (cases async)
  case True
  define obj where "obj = \<lparr>layout = l, handle = VK_NULL_HANDLE,
       compileScratch = Some \<lparr>allocated = async, vkModule = vk_module, vkLayout = layoutHandle,
                      vkCache = cache, progIdx = prog\<rparr>\<rparr>"
  have e: "s' = s\<lparr>pipes := (pipes s)(this := Some obj), compileQueue := compileQueue s @ [this]\<rparr>"
    using assms(2) True by (simp add: ComputePipeline_ctor_def Let_def PipelineCompiler_queue_def obj_def)
  have o: "compileScratch obj \<noteq> None" by (simp add: obj_def)
  have "checkCompiled pipe \<or> (p \<in> set (compileQueue s') \<and> compileScratch pipe \<noteq> None)"
    if "pipes s' p = Some pipe" for p pipe
  proof (cases "p = this")
    case True
    then show ?thesis using that o by (simp add: e)
  next
    case False
    then have "pipes s p = Some pipe" using that by (simp add: e)
    then show ?thesis using assms(1) by (auto simp: pendingAreQueued_def e)
  qed
  then show ?thesis by (simp add: pendingAreQueued_def)
next
  case False
  define obj where "obj = \<lparr>layout = l, handle = VK_NULL_HANDLE,
       compileScratch = Some \<lparr>allocated = async, vkModule = vk_module, vkLayout = layoutHandle,
                      vkCache = cache, progIdx = prog\<rparr>\<rparr>"
  obtain obj' log where c: "ComputePipeline_compile native t obj = Returns (obj', log)"
    and e: "s' = s\<lparr>pipes := (pipes s)(this := Some obj')\<rparr>"
    using assms(2) False
    by (auto simp: ComputePipeline_ctor_def Let_def obj_def split: outcome.splits)
  have "checkCompiled obj'" using compute_compile_Returns [OF c] by simp
  then show ?thesis using assms(1) by (auto simp: pendingAreQueued_def e)
qed

lemma reachable_inv: "reachable s \<Longrightarrow> pendingAreQueued s"
proof (induction rule: reachable.induct)
  case initial
  then show ?case by (simp add: pendingAreQueued_def)
next
  case (constructed s this native t prog cache l layoutHandle vk_module async s')
  then show ?case using ctor_inv by blast
next
  case (worker s p native t s')
  then show ?case using compileQueued_inv by blast
next
  case (bound s native t this s' calls)
  then show ?case using bind_Returns waitFor_inv by blast
next
  case (destroyed s native t this s')
  then show ?case using cleanup_Returns waitFor_inv delete_inv by metis
qed

lemma exampleBackend_ctor:
  "ComputePipeline_ctor nineDriver exampleTiming 0 4 3 0 2 1 True
       \<lparr>pipes = (\<lambda>a. None), compileQueue = []\<rparr> = Returns exampleBackend"
  by (simp add: ComputePipeline_ctor_def PipelineCompiler_queue_def exampleBackend_def
      examplePending_def)

lemma exampleBackend_reachable: "reachable exampleBackend"
  using reachable.constructed [OF reachable.initial _ exampleBackend_ctor] by simp

lemma examplePending_compile:
  "ComputePipeline_compile nineDriver exampleTiming examplePending
     = Returns (examplePending\<lparr>handle := 9, compileScratch := None\<rparr>, [])"
proof -
  have s: "compileScratch examplePending
            = Some \<lparr>allocated = True, vkModule = 1, vkLayout = 2, vkCache = 3, progIdx = 4\<rparr>"
    by (simp add: examplePending_def)
  have n: "nineDriver \<lparr>allocated = True, vkModule = 1, vkLayout = 2, vkCache = 3, progIdx = 4\<rparr>
            = (VK_SUCCESS, 9)"
    by (simp add: nineDriver_def)
  show ?thesis
    using compute_compile_cases [where native = nineDriver and t = exampleTiming, OF s n]
    by (simp add: VULKAN_FAIL_def VK_SUCCESS_def is_null_def VK_NULL_HANDLE_def logsLongCompile_def
        exampleTiming_def)
qed

text \<open>
  Claim C1. In every reachable state of the backend, \<^verbatim>\<open>bind\<close> on a live compute pipeline
  either leaves through the fatal exit of a failed compilation, without any native bind,
  or returns after the native bind call with a handle that is not null, the handle of the
  pipeline after the call. When the pipeline is not yet compiled, the call of
  \<^verbatim>\<open>waitFor\<close> for this pipeline comes first; when it is compiled there is no wait. \<^verbatim>\<open>bind\<close>
  never blocks for ever and never reads through a dangling pointer. This covers every
  pipeline constructed with asynchronous compilation enabled, whatever the workers have
  done since.
\<close>

theorem bind_never_binds_null:
  assumes "reachable s" and "pipes s this = Some pipe"
  shows "(ComputePipeline_bind native t this s = FatalExit \<and> \<not> checkCompiled pipe)
       \<or> (\<exists>s' pipe'. ComputePipeline_bind native t this s
               = Returns (s', (if checkCompiled pipe then [] else [WaitFor this])
                              @ [VkCmdBindPipeline_COMPUTE (getHandle pipe')])
             \<and> pipes s' this = Some pipe' \<and> \<not> is_null (getHandle pipe'))"
proof (cases "checkCompiled pipe")
  case True
  then show ?thesis
    using assms(2) by (simp add: ComputePipeline_bind_def checkCompiled_def getHandle_def)
next
  case False
  have inv: "pendingAreQueued s" using reachable_inv [OF assms(1)] .
  from waitFor_compiled [OF inv assms(2) False, of native t] show ?thesis
  proof
    assume "PipelineCompiler_waitFor native t this s = FatalExit"
    then show ?thesis using assms(2) False by (simp add: ComputePipeline_bind_def)
  next
    assume "\<exists>s' pipe'. PipelineCompiler_waitFor native t this s = Returns s'
             \<and> pipes s' this = Some pipe' \<and> checkCompiled pipe'"
    then obtain s' pipe' where "PipelineCompiler_waitFor native t this s = Returns s'"
      "pipes s' this = Some pipe'" "checkCompiled pipe'" by blast
    then show ?thesis
      using assms(2) False
      by (auto simp: ComputePipeline_bind_def checkCompiled_def getHandle_def)
  qed
qed


theorem bind_never_binds_null_witness:
  "ComputePipeline_ctor nineDriver exampleTiming 0 4 3 0 2 1 True
       \<lparr>pipes = (\<lambda>a. None), compileQueue = []\<rparr> = Returns exampleBackend
   \<and> reachable exampleBackend
   \<and> pipes exampleBackend 0 = Some examplePending
   \<and> \<not> checkCompiled examplePending
   \<and> (\<exists>s'. ComputePipeline_bind nineDriver exampleTiming 0 exampleBackend
              = Returns (s', [WaitFor 0, VkCmdBindPipeline_COMPUTE 9])
           \<and> pipes s' 0 = Some (examplePending\<lparr>handle := 9, compileScratch := None\<rparr>)
           \<and> compileQueue s' = [])"
proof -
  have p: "pipes exampleBackend 0 = Some examplePending" by (simp add: exampleBackend_def)
  have c: "\<not> checkCompiled examplePending"
    by (simp add: checkCompiled_def examplePending_def is_null_def)
  have q: "0 \<in> set (compileQueue exampleBackend)" by (simp add: exampleBackend_def)
  have w: "PipelineCompiler_waitFor nineDriver exampleTiming 0 exampleBackend
             = Returns (exampleBackend\<lparr>pipes := (pipes exampleBackend)
                           (0 := Some (examplePending\<lparr>handle := 9, compileScratch := None\<rparr>)),
                         compileQueue := removeAll 0 (compileQueue exampleBackend)\<rparr>)"
    using p c q
    by (simp add: PipelineCompiler_waitFor_def PipelineCompiler_compileQueued_def
        examplePending_compile)
  have b0: "ComputePipeline_bind nineDriver exampleTiming 0 exampleBackend
              = Returns (exampleBackend\<lparr>pipes := (pipes exampleBackend)
                           (0 := Some (examplePending\<lparr>handle := 9, compileScratch := None\<rparr>)),
                         compileQueue := removeAll 0 (compileQueue exampleBackend)\<rparr>,
                         [WaitFor 0, VkCmdBindPipeline_COMPUTE 9])"
    using c by (simp add: ComputePipeline_bind_def p w getHandle_def)
  have b: "\<exists>s'. ComputePipeline_bind nineDriver exampleTiming 0 exampleBackend
              = Returns (s', [WaitFor 0, VkCmdBindPipeline_COMPUTE 9])
           \<and> pipes s' 0 = Some (examplePending\<lparr>handle := 9, compileScratch := None\<rparr>)
           \<and> compileQueue s' = []"
  proof -
    define S where "S = exampleBackend\<lparr>pipes := (pipes exampleBackend)
                           (0 := Some (examplePending\<lparr>handle := 9, compileScratch := None\<rparr>)),
                         compileQueue := removeAll 0 (compileQueue exampleBackend)\<rparr>"
    have "pipes S 0 = Some (examplePending\<lparr>handle := 9, compileScratch := None\<rparr>)"
      and "compileQueue S = []"
      by (simp_all add: S_def exampleBackend_def)
    then show ?thesis
      using b0 bind_never_binds_null [OF exampleBackend_reachable p, of nineDriver exampleTiming]
      unfolding S_def [symmetric] by blast
  qed
  show ?thesis
    using exampleBackend_ctor exampleBackend_reachable p c b by blast
qed

end
